theory Spec2Isabelle
  imports Main "HOL-Library.Word"
begin

section \<open>C library primitives used by the parsers\<close>

text \<open>
  A C string is modelled as the \<open>char list\<close> in front of its terminating NUL.
  \<open>errno\<close> is a natural number, \<open>0\<close> meaning "no error"; the only value the
  conversions below ever store is \<open>ERANGE\<close>.
\<close>

definition ERANGE :: nat where
  "ERANGE = 34"

definition isspace :: "char \<Rightarrow> bool" where
  "isspace c \<longleftrightarrow> c \<in> set [CHR '' '', CHR 0x09, CHR 0x0A, CHR 0x0B, CHR 0x0C, CHR 0x0D]"

definition skip_ws :: "string \<Rightarrow> string" where
  "skip_ws s = dropWhile isspace s"

definition digit_of :: "char \<Rightarrow> nat option" where
  "digit_of c = (let n = (of_char c :: nat) in
     if 48 \<le> n \<and> n \<le> 57 then Some (n - 48) else None)"

definition xdigit_of :: "char \<Rightarrow> nat option" where
  "xdigit_of c = (let n = (of_char c :: nat) in
     if 48 \<le> n \<and> n \<le> 57 then Some (n - 48)
     else if 97 \<le> n \<and> n \<le> 102 then Some (n - 87)
     else if 65 \<le> n \<and> n \<le> 70 then Some (n - 55)
     else None)"

text \<open>The longest run of digits in the given base, accumulated from the left.\<close>

fun scan_digits :: "(char \<Rightarrow> nat option) \<Rightarrow> nat \<Rightarrow> nat \<Rightarrow> string \<Rightarrow> nat \<times> string" where
  "scan_digits dig base acc [] = (acc, [])"
| "scan_digits dig base acc (c # cs) =
     (case dig c of
        Some d \<Rightarrow> scan_digits dig base (base * acc + d) cs
      | None \<Rightarrow> (acc, c # cs))"

text \<open>An optional sign in front of a number: \<open>True\<close> for a minus sign.\<close>

fun scan_sign :: "string \<Rightarrow> bool \<times> string" where
  "scan_sign [] = (False, [])"
| "scan_sign (c # cs) =
     (if c = CHR ''-'' then (True, cs)
      else if c = CHR ''+'' then (False, cs)
      else (False, c # cs))"

definition LONG_MAX :: int where
  "LONG_MAX = 2 ^ 63 - 1"

definition LONG_MIN :: int where
  "LONG_MIN = - (2 ^ 63)"

definition ULONG_MAX :: nat where
  "ULONG_MAX = 2 ^ 64 - 1"

text \<open>
  What \<open>strtol\<close> does with a sign and a magnitude: the value when it fits a
  \<open>long\<close>, otherwise the nearest bound with \<open>errno = ERANGE\<close>.
\<close>

definition to_long :: "bool \<Rightarrow> nat \<Rightarrow> nat \<Rightarrow> int \<times> nat" where
  "to_long neg n errno =
     (let v = (if neg then - int n else int n) in
      if v > LONG_MAX then (LONG_MAX, ERANGE)
      else if v < LONG_MIN then (LONG_MIN, ERANGE)
      else (v, errno))"

text \<open>
  \<open>strtol(nptr, NULL, 10)\<close> of glibc: leading white space, an optional sign, decimal
  digits. Without any digit the result is \<open>0\<close> and \<open>errno\<close> is left as it was; the
  characters after the digits are ignored (the end pointer is \<open>NULL\<close>).
\<close>

definition strtol :: "string \<Rightarrow> nat \<Rightarrow> int \<times> nat" where
  "strtol nptr errno =
     (let (neg, s) = scan_sign (skip_ws nptr) in
      case s of
        [] \<Rightarrow> (0, errno)
      | c # cs \<Rightarrow>
          (case digit_of c of
             None \<Rightarrow> (0, errno)
           | Some d \<Rightarrow> to_long neg (fst (scan_digits digit_of 10 d cs)) errno))"

subsection \<open>\<open>sscanf\<close>\<close>

text \<open>
  The directives that occur in the format strings of the program. A format string is
  written as the list of its directives, in order:
  a white-space character of the format is \<open>WS\<close>, an ordinary character is \<open>Lit\<close>,
  \<open>%ld\<close>, \<open>%d\<close>, \<open>%hd\<close> and \<open>%hhx\<close> are the numeric conversions,
  \<open>%*1[...]\<close> is \<open>Skip1\<close> with the characters of the scan set, and
  \<open>%m[^...]\<close> is \<open>AllocUntil\<close> with the excluded characters.
  The numeric conversions skip white space first and follow glibc: the digits are
  converted as \<open>strtol\<close> (\<open>strtoul\<close> for \<open>%hhx\<close>) converts them, and the result is
  cut to the width of the object it is stored in.
\<close>

datatype directive =
    WS
  | Lit char
  | Conv_ld
  | Conv_d
  | Conv_hd
  | Conv_hhx
  | Skip1 "char list"
  | AllocUntil "char list"

datatype scanned =
    VLong "64 word"
  | VInt "32 word"
  | VShort "16 word"
  | VByte "8 word"
  | VStr string

text \<open>
  The result of a call: the return value (\<open>-1\<close> is \<open>EOF\<close>), the values stored
  through the pointer arguments so far, and \<open>errno\<close>.
\<close>

type_synonym scan_result = "int \<times> scanned list \<times> nat"

text \<open>
  A matching failure returns the number of assignments made; an input failure (the
  string ends where a directive needs a character) returns \<open>EOF\<close> when nothing has
  been assigned yet.
\<close>

definition matching_failure :: "scanned list \<Rightarrow> nat \<Rightarrow> scan_result" where
  "matching_failure vs errno = (int (length vs), vs, errno)"

definition input_failure :: "scanned list \<Rightarrow> nat \<Rightarrow> scan_result" where
  "input_failure vs errno = ((if vs = [] then - 1 else int (length vs)), vs, errno)"

text \<open>
  A signed decimal item as \<open>%ld\<close>, \<open>%d\<close> and \<open>%hd\<close> read it, after white space has
  been skipped: \<open>None\<close> when the input is not a number.
\<close>

definition scan_decimal :: "string \<Rightarrow> ((bool \<times> nat) \<times> string) option" where
  "scan_decimal s =
     (let (neg, s1) = scan_sign s in
      case s1 of
        [] \<Rightarrow> None
      | c # cs \<Rightarrow>
          (case digit_of c of
             None \<Rightarrow> None
           | Some d \<Rightarrow> (let (n, rest) = scan_digits digit_of 10 d cs in Some ((neg, n), rest))))"

text \<open>
  A hexadecimal item as \<open>%hhx\<close> reads it: an optional sign, then hexadecimal
  digits, at least one. A leading \<open>0x\<close> or \<open>0X\<close> is taken as a prefix, and, as in the
  glibc the program is built against, a prefix with no digit after it reads as 0.
\<close>

definition hex_digits :: "bool \<Rightarrow> string \<Rightarrow> ((bool \<times> nat) \<times> string) option" where
  "hex_digits neg s =
     (case s of
        [] \<Rightarrow> None
      | c # cs \<Rightarrow>
          (case xdigit_of c of
             None \<Rightarrow> None
           | Some d \<Rightarrow> (let (n, rest) = scan_digits xdigit_of 16 d cs in Some ((neg, n), rest))))"

definition scan_hex :: "string \<Rightarrow> ((bool \<times> nat) \<times> string) option" where
  "scan_hex s =
     (let (neg, s1) = scan_sign s in
      case s1 of
        c # x # cs \<Rightarrow>
          if c = CHR ''0'' \<and> (x = CHR ''x'' \<or> x = CHR ''X'')
          then (let (n, rest) = scan_digits xdigit_of 16 0 cs in Some ((neg, n), rest))
          else hex_digits neg s1
      | _ \<Rightarrow> hex_digits neg s1)"

text \<open>
  The value \<open>%hhx\<close> stores: the \<open>unsigned long\<close> that \<open>strtoul\<close> returns
  (\<open>ULONG_MAX\<close> and \<open>ERANGE\<close> beyond it, negated modulo \<open>2^64\<close> after a minus sign),
  cut to its low byte.
\<close>

definition to_uchar :: "bool \<Rightarrow> nat \<Rightarrow> nat \<Rightarrow> 8 word \<times> nat" where
  "to_uchar neg n errno =
     (if n > ULONG_MAX then (word_of_nat ULONG_MAX, ERANGE)
      else ((if neg then - word_of_nat n else word_of_nat n), errno))"

fun sscanf_from :: "directive list \<Rightarrow> string \<Rightarrow> scanned list \<Rightarrow> nat \<Rightarrow> scan_result" where
  "sscanf_from [] s vs errno = (int (length vs), vs, errno)"
| "sscanf_from (WS # ds) s vs errno = sscanf_from ds (skip_ws s) vs errno"
| "sscanf_from (Lit c # ds) s vs errno =
     (case s of
        [] \<Rightarrow> input_failure vs errno
      | x # xs \<Rightarrow> if x = c then sscanf_from ds xs vs errno else matching_failure vs errno)"
| "sscanf_from (Conv_ld # ds) s vs errno =
     (let s1 = skip_ws s in
      if s1 = [] then input_failure vs errno
      else case scan_decimal s1 of
        None \<Rightarrow> matching_failure vs errno
      | Some ((neg, n), rest) \<Rightarrow>
          (let (v, e) = to_long neg n errno
           in sscanf_from ds rest (vs @ [VLong (word_of_int v)]) e))"
| "sscanf_from (Conv_d # ds) s vs errno =
     (let s1 = skip_ws s in
      if s1 = [] then input_failure vs errno
      else case scan_decimal s1 of
        None \<Rightarrow> matching_failure vs errno
      | Some ((neg, n), rest) \<Rightarrow>
          (let (v, e) = to_long neg n errno
           in sscanf_from ds rest (vs @ [VInt (word_of_int v)]) e))"
| "sscanf_from (Conv_hd # ds) s vs errno =
     (let s1 = skip_ws s in
      if s1 = [] then input_failure vs errno
      else case scan_decimal s1 of
        None \<Rightarrow> matching_failure vs errno
      | Some ((neg, n), rest) \<Rightarrow>
          (let (v, e) = to_long neg n errno
           in sscanf_from ds rest (vs @ [VShort (word_of_int v)]) e))"
| "sscanf_from (Conv_hhx # ds) s vs errno =
     (let s1 = skip_ws s in
      if s1 = [] then input_failure vs errno
      else case scan_hex s1 of
        None \<Rightarrow> matching_failure vs errno
      | Some ((neg, n), rest) \<Rightarrow>
          (let (v, e) = to_uchar neg n errno
           in sscanf_from ds rest (vs @ [VByte v]) e))"
| "sscanf_from (Skip1 cset # ds) s vs errno =
     (case s of
        [] \<Rightarrow> input_failure vs errno
      | x # xs \<Rightarrow> if x \<in> set cset then sscanf_from ds xs vs errno else matching_failure vs errno)"
| "sscanf_from (AllocUntil stops # ds) s vs errno =
     (case s of
        [] \<Rightarrow> input_failure vs errno
      | x # xs \<Rightarrow>
          if x \<in> set stops then matching_failure vs errno
          else sscanf_from ds (dropWhile (\<lambda>c. c \<notin> set stops) s)
                 (vs @ [VStr (takeWhile (\<lambda>c. c \<notin> set stops) s)]) errno)"

text \<open>A run of ordinary characters in a format.\<close>

definition lits :: "string \<Rightarrow> directive list" where
  "lits s = map Lit s"

text \<open>The callers set \<open>errno = 0\<close> right before every call.\<close>

definition sscanf :: "string \<Rightarrow> directive list \<Rightarrow> scan_result" where
  "sscanf str format = sscanf_from format str [] 0"

text \<open>
  \<open>g_strsplit(string, ",", 0)\<close>: the pieces between the commas; the vector is empty
  only for the empty string.
\<close>

fun pieces :: "string \<Rightarrow> string list" where
  "pieces [] = [[]]"
| "pieces (c # cs) =
     (if c = CHR '','' then [] # pieces cs
      else (case pieces cs of p # ps \<Rightarrow> (c # p) # ps | [] \<Rightarrow> [[c]]))"

definition g_strsplit :: "string \<Rightarrow> string list" where
  "g_strsplit s = (if s = [] then [] else pieces s)"

section \<open>The event model\<close>

text \<open>
  The event types: the enumerators of \<open>PS2EventType\<close> that the two programs name (the
  enumeration itself is declared in \<open>ps2emu-event.h\<close>).
\<close>

datatype PS2EventType =
    PS2_EVENT_TYPE_COMMAND
  | PS2_EVENT_TYPE_PARAMETER
  | PS2_EVENT_TYPE_RETURN
  | PS2_EVENT_TYPE_KBD_DATA
  | PS2_EVENT_TYPE_INTERRUPT

text \<open>
  Modelled from the spec: the declaration of \<open>PS2Event\<close> (header \<open>ps2emu-event.h\<close>) is
  not among the sources. The fields are the ones the two programs access, with the
  widths of section 3 of the specification: a signed 64-bit time, an unsigned data
  byte, a 16-bit IRQ number and an integer port.
\<close>

record PS2Event =
  time :: "64 word"
  type :: PS2EventType
  data :: "8 word"
  has_data :: bool
  irq :: "16 word"
  port :: "32 word"

text \<open>
  The error codes: \<open>PS2Error\<close> of ps2emu-record, the two codes ps2emu-replay uses, and
  the errors GLib itself reports for a channel.
\<close>

datatype error_code =
    PS2_ERROR_INPUT
  | PS2_ERROR_NO_EVENTS
  | PS2EMU_ERROR_INPUT
  | PS2EMU_ERROR_NO_EVENTS
  | G_IO_CHANNEL_ERROR

text \<open>A \<open>GError\<close>: its code and its message. An error location is a \<open>GError option\<close>.\<close>

type_synonym GError = "error_code \<times> string"

text \<open>\<open>g_set_error\<close> does not overwrite an error that is already set.\<close>

definition g_set_error :: "GError option \<Rightarrow> GError \<Rightarrow> GError option" where
  "g_set_error error e = (case error of None \<Rightarrow> Some e | Some old \<Rightarrow> Some old)"

text \<open>What a callee leaves in the error location when it reports \<open>e\<close> (or nothing).\<close>

definition set_by :: "GError option \<Rightarrow> GError option \<Rightarrow> GError option" where
  "set_by error e = (case e of None \<Rightarrow> error | Some x \<Rightarrow> g_set_error error x)"

definition g_prefix_error :: "GError option \<Rightarrow> string \<Rightarrow> GError option" where
  "g_prefix_error error prefix =
     (case error of None \<Rightarrow> None | Some (code, message) \<Rightarrow> Some (code, prefix @ message))"

section \<open>ps2emu-record: parsing the kernel log\<close>

text \<open>The format \<open>"[%ld] %hhx %*1[-<]%*1[->] i8042 (%m[^)])\n"\<close>.\<close>

definition normal_event_format :: "directive list" where
  "normal_event_format =
     [Lit CHR ''['', Conv_ld, Lit CHR '']'', WS, Conv_hhx, WS,
      Skip1 ''-<'', Skip1 ''->'', WS] @ lits ''i8042'' @ [WS,
      Lit CHR ''('', AllocUntil '')'', Lit CHR '')'', WS]"

text \<open>
  The stores \<open>sscanf\<close> makes through \<open>&event->time\<close> and \<open>&event->data\<close>: they
  happen as soon as the conversion succeeds, also when a later directive fails.
\<close>

fun store_normal :: "scanned list \<Rightarrow> PS2Event \<Rightarrow> PS2Event" where
  "store_normal (VLong t # VByte d # _) event = event\<lparr>time := t, data := d\<rparr>"
| "store_normal (VLong t # _) event = event\<lparr>time := t\<rparr>"
| "store_normal _ event = event"

fun stored_type_str :: "scanned list \<Rightarrow> string" where
  "stored_type_str [_, _, VStr s] = s"
| "stored_type_str _ = []"

definition strerror :: "nat \<Rightarrow> string" where
  "strerror e = (if e = ERANGE then ''Numerical result out of range'' else ''Success'')"

text \<open>
  \<open>parse_normal_event\<close> returns its \<open>gboolean\<close>, the event as the call leaves it, and
  the error it sets (the callers pass an error location that is still empty).
  \<open>%m[^)]\<close> stores at least one character, so \<open>type_str_args\<close> has a first element
  whenever the function gets as far as comparing it.
\<close>

definition parse_normal_event :: "string \<Rightarrow> PS2Event \<Rightarrow> bool \<times> PS2Event \<times> GError option" where
  "parse_normal_event start_pos event =
     (case sscanf start_pos normal_event_format of (parsed_count, vs, errno) \<Rightarrow>
      let event = store_normal vs event;
          type_str = stored_type_str vs
      in
      if errno \<noteq> 0 \<or> parsed_count \<noteq> 3 then (False, event, None)
      else
        let type_str_args = g_strsplit type_str in
        if (case type_str_args of [] \<Rightarrow> False | arg0 # _ \<Rightarrow> arg0 = ''interrupt'') then
          (let event = event\<lparr>type := PS2_EVENT_TYPE_INTERRUPT\<rparr>;
               type_str_argc = length type_str_args
           in
           if type_str_argc < 3 then
             (False, event,
              Some (PS2_ERROR_INPUT,
                    ''Got interrupt event, but had less arguments then expected''))
           else
             (case strtol (type_str_args ! 1) 0 of (p, errno) \<Rightarrow>
              let event = event\<lparr>port := word_of_int p\<rparr> in
              if errno \<noteq> 0 then
                (False, event,
                 Some (PS2_ERROR_INPUT,
                       ''Failed to parse port number from interrupt event: ''
                         @ strerror errno @ ''\<newline>''))
              else
                (case strtol (type_str_args ! 2) 0 of (q, errno) \<Rightarrow>
                 let event = event\<lparr>irq := word_of_int q\<rparr> in
                 if errno \<noteq> 0 then
                   (False, event,
                    Some (PS2_ERROR_INPUT,
                          ''Failed to parse IRQ from interrupt event: ''
                            @ strerror errno @ ''\<newline>''))
                 else (True, event\<lparr>has_data := True\<rparr>, None))))
        else
          (let event =
                 (if type_str = ''command'' then event\<lparr>type := PS2_EVENT_TYPE_COMMAND\<rparr>
                  else if type_str = ''parameter'' then event\<lparr>type := PS2_EVENT_TYPE_PARAMETER\<rparr>
                  else if type_str = ''return'' then event\<lparr>type := PS2_EVENT_TYPE_RETURN\<rparr>
                  else if type_str = ''kbd-data'' then event\<lparr>type := PS2_EVENT_TYPE_KBD_DATA\<rparr>
                  else event)
           in (True, event\<lparr>has_data := True\<rparr>, None)))"

text \<open>The format \<open>"[%ld] Interrupt %hd, without any data\n"\<close>.\<close>

definition interrupt_without_data_format :: "directive list" where
  "interrupt_without_data_format =
     [Lit CHR ''['', Conv_ld, Lit CHR '']'', WS] @ lits ''Interrupt'' @ [WS, Conv_hd,
      Lit CHR '','', WS] @ lits ''without'' @ [WS] @ lits ''any'' @ [WS] @ lits ''data'' @ [WS]"

fun store_without_data :: "scanned list \<Rightarrow> PS2Event \<Rightarrow> PS2Event" where
  "store_without_data (VLong t # VShort i # _) event = event\<lparr>time := t, irq := i\<rparr>"
| "store_without_data (VLong t # _) event = event\<lparr>time := t\<rparr>"
| "store_without_data _ event = event"

definition parse_interrupt_without_data :: "string \<Rightarrow> PS2Event \<Rightarrow> bool \<times> PS2Event" where
  "parse_interrupt_without_data start_pos event =
     (case sscanf start_pos interrupt_without_data_format of (parsed_count, vs, errno) \<Rightarrow>
      let event = store_without_data vs event in
      if errno \<noteq> 0 \<or> parsed_count \<noteq> 2 then (False, event)
      else (True, event\<lparr>type := PS2_EVENT_TYPE_INTERRUPT, has_data := False\<rparr>))"

definition KEYBOARD_PORT :: "32 word" where
  "KEYBOARD_PORT = 0"

text \<open>
  \<open>process_event\<close> with the two globals \<open>record_kbd\<close> and \<open>record_aux\<close> as arguments.
  The standard output is the list of the lines printed so far;
  \<open>ps2_event_to_string\<close> is declared in \<open>ps2emu-event.h\<close> and is an argument here.
\<close>

definition process_event ::
  "bool \<Rightarrow> bool \<Rightarrow> (PS2Event \<Rightarrow> string) \<Rightarrow> PS2Event \<Rightarrow> string list \<Rightarrow> bool \<times> string list" where
  "process_event record_kbd record_aux ps2_event_to_string event stdout =
     (if \<not> record_kbd \<and> type event = PS2_EVENT_TYPE_INTERRUPT \<and> port event = KEYBOARD_PORT
        then (True, stdout)
      else if \<not> record_kbd \<and> type event = PS2_EVENT_TYPE_KBD_DATA
        then (True, stdout)
      else if \<not> record_aux \<and> type event = PS2_EVENT_TYPE_INTERRUPT
                \<and> port event \<noteq> KEYBOARD_PORT
        then (True, stdout)
      else if \<not> record_aux \<and> type event \<noteq> PS2_EVENT_TYPE_INTERRUPT
                \<and> type event \<noteq> PS2_EVENT_TYPE_KBD_DATA
        then (True, stdout)
      else (True, stdout @ [ps2_event_to_string event @ ''\<newline>'']))"

section \<open>ps2emu-replay: reading the log\<close>

datatype GIOStatus =
    G_IO_STATUS_ERROR
  | G_IO_STATUS_NORMAL
  | G_IO_STATUS_EOF
  | G_IO_STATUS_AGAIN

text \<open>
  The log file is the list of its lines that have not been read yet, each with its
  terminator. \<open>g_io_channel_read_line\<close> refuses to run with an error already set
  (GLib checks \<open>error == NULL || *error == NULL\<close> on entry and returns
  \<open>G_IO_STATUS_ERROR\<close>); otherwise it returns the next line, or \<open>G_IO_STATUS_EOF\<close> at
  the end. Reading the file itself is taken not to fail.
\<close>

definition g_io_channel_read_line ::
  "string list \<Rightarrow> GError option \<Rightarrow> GIOStatus \<times> string \<times> string list" where
  "g_io_channel_read_line channel error =
     (if error \<noteq> None then (G_IO_STATUS_ERROR, [], channel)
      else case channel of
        [] \<Rightarrow> (G_IO_STATUS_EOF, [], [])
      | line # rest \<Rightarrow> (G_IO_STATUS_NORMAL, line, rest))"

text \<open>The format \<open>"# ps2emu-record V%d\n"\<close>.\<close>

definition log_version_format :: "directive list" where
  "log_version_format =
     [Lit CHR ''#'', WS] @ lits ''ps2emu-record'' @ [WS, Lit CHR ''V'', Conv_d, WS]"

text \<open>
  \<open>parse_log_version\<close> returns the version, the rest of the file and the error location.
  When \<open>sscanf\<close> returns \<open>EOF\<close> the local \<open>log_version\<close> is returned without ever
  having been assigned: its indeterminate content is the first argument.
\<close>

definition parse_log_version ::
  "int \<Rightarrow> string list \<Rightarrow> GError option \<Rightarrow> int \<times> string list \<times> GError option" where
  "parse_log_version indeterminate input_channel error =
     (case g_io_channel_read_line input_channel error of (rc, line, input_channel) \<Rightarrow>
      if rc \<noteq> G_IO_STATUS_NORMAL then
        (- 1, input_channel,
         (if rc = G_IO_STATUS_EOF
          then g_set_error error (PS2EMU_ERROR_NO_EVENTS, ''Reached unexpected EOF'')
          else error))
      else
        (case sscanf line log_version_format of (parse_count, vs, errno) \<Rightarrow>
         if parse_count = 0 \<or> errno \<noteq> 0 then
           (- 1, input_channel,
            g_set_error error (PS2EMU_ERROR_INPUT, ''Invalid log file version''))
         else
           ((case vs of VInt v # _ \<Rightarrow> sint v | _ \<Rightarrow> indeterminate), input_channel, error)))"

text \<open>
  The enumerations \<open>LineType\<close> and \<open>LogSectionType\<close> are declared in
  \<open>ps2emu-line.h\<close> and \<open>ps2emu-section.h\<close>. The constructors are the enumerators
  \<open>parse_events\<close> names in its two \<open>switch\<close> statements; \<open>LINE_TYPE_other\<close> and
  \<open>SECTION_TYPE_other\<close> stand for any further enumerator, for which no \<open>case\<close> of
  the \<open>switch\<close> applies.
\<close>

datatype LineType =
    LINE_TYPE_EVENT
  | LINE_TYPE_SECTION
  | LINE_TYPE_INVALID
  | LINE_TYPE_other

datatype LogSectionType =
    SECTION_TYPE_INIT
  | SECTION_TYPE_MAIN
  | SECTION_TYPE_ERROR
  | SECTION_TYPE_other

text \<open>
  The three functions \<open>parse_events\<close> calls that are defined in other files of the
  repository. Each is an argument of the model: \<open>get_line_type\<close> returns the line
  type and \<open>msg_start\<close>, \<open>ps2_event_from_line\<close> the event (\<open>None\<close> for \<open>NULL\<close>),
  \<open>section_type_from_line\<close> the section type, and each the error it reports, if any.
\<close>

record helpers =
  get_line_type :: "string \<Rightarrow> LineType \<times> string \<times> GError option"
  ps2_event_from_line :: "string \<Rightarrow> PS2Event option \<times> GError option"
  section_type_from_line :: "string \<Rightarrow> LogSectionType \<times> GError option"

text \<open>
  The three global lists, and the list \<open>event_list_dest\<close> points to: the local pointer
  is \<open>None\<close> as long as nothing has been assigned to it.
\<close>

record event_lists =
  event_list :: "PS2Event list"
  init_event_list :: "PS2Event list"
  main_event_list :: "PS2Event list"

datatype dest = EVENT_LIST | INIT_EVENT_LIST | MAIN_EVENT_LIST

definition no_events :: event_lists where
  "no_events = \<lparr>event_list = [], init_event_list = [], main_event_list = []\<rparr>"

text \<open>\<open>*event_list_dest = g_slist_prepend(*event_list_dest, event)\<close>.\<close>

fun prepend_to :: "dest \<Rightarrow> PS2Event \<Rightarrow> event_lists \<Rightarrow> event_lists" where
  "prepend_to EVENT_LIST event L = L\<lparr>event_list := event # event_list L\<rparr>"
| "prepend_to INIT_EVENT_LIST event L = L\<lparr>init_event_list := event # init_event_list L\<rparr>"
| "prepend_to MAIN_EVENT_LIST event L = L\<lparr>main_event_list := event # main_event_list L\<rparr>"

text \<open>
  The outcome of \<open>parse_events\<close>: it returns its \<open>gboolean\<close> with the lists, the error
  location and the unread lines, or it stores through \<open>event_list_dest\<close> while the
  pointer is still uninitialised, which C leaves undefined.
\<close>

datatype parse_outcome =
    Returned bool event_lists "GError option" "string list"
  | Undefined_store

text \<open>The statements after the loop, with the status \<open>rc\<close> the last read returned.\<close>

definition after_loop ::
  "int \<Rightarrow> GIOStatus \<Rightarrow> event_lists \<Rightarrow> GError option \<Rightarrow> string list \<Rightarrow> parse_outcome" where
  "after_loop log_version rc L error channel =
     (if rc \<noteq> G_IO_STATUS_EOF then Returned False L error channel
      else if log_version \<ge> 1 then
        Returned True
          (L\<lparr>init_event_list := rev (init_event_list L),
             main_event_list := rev (main_event_list L)\<rparr>) error channel
      else Returned True (L\<lparr>event_list := rev (event_list L)\<rparr>) error channel)"

text \<open>
  The loop of \<open>parse_events\<close>, one equation for the end of the file and one for a line
  that is there to read; in both, a read with the error already set ends the loop with
  \<open>G_IO_STATUS_ERROR\<close>.
\<close>

fun parse_events_loop ::
  "helpers \<Rightarrow> int \<Rightarrow> string list \<Rightarrow> dest option \<Rightarrow> event_lists \<Rightarrow> GError option
     \<Rightarrow> parse_outcome" where
  "parse_events_loop H log_version [] event_list_dest L error =
     after_loop log_version (fst (g_io_channel_read_line [] error)) L error []"
| "parse_events_loop H log_version (line # channel) event_list_dest L error =
     (if error \<noteq> None then
        after_loop log_version G_IO_STATUS_ERROR L error (line # channel)
      else
        (case (if log_version < 1 then (LINE_TYPE_EVENT, line, Some EVENT_LIST, error)
               else (case get_line_type H line of (line_type, msg_start, e) \<Rightarrow>
                       (line_type, msg_start, event_list_dest, set_by error e)))
         of (line_type, msg_start, event_list_dest, error) \<Rightarrow>
           (case line_type of
              LINE_TYPE_EVENT \<Rightarrow>
                (case ps2_event_from_line H msg_start of (event, e) \<Rightarrow>
                 let error = set_by error e in
                 (case event of
                    None \<Rightarrow>
                      if error = None
                      then parse_events_loop H log_version channel event_list_dest L error
                      else Returned False L error channel
                  | Some event \<Rightarrow>
                      (case event_list_dest of
                         None \<Rightarrow> Undefined_store
                       | Some d \<Rightarrow>
                           parse_events_loop H log_version channel event_list_dest
                             (prepend_to d event L) error)))
            | LINE_TYPE_SECTION \<Rightarrow>
                (case section_type_from_line H msg_start of (section_type, e) \<Rightarrow>
                 let error = set_by error e in
                 (case section_type of
                    SECTION_TYPE_INIT \<Rightarrow>
                      parse_events_loop H log_version channel (Some INIT_EVENT_LIST) L error
                  | SECTION_TYPE_MAIN \<Rightarrow>
                      parse_events_loop H log_version channel (Some MAIN_EVENT_LIST) L error
                  | SECTION_TYPE_ERROR \<Rightarrow> Returned False L error channel
                  | SECTION_TYPE_other \<Rightarrow>
                      parse_events_loop H log_version channel event_list_dest L error))
            | LINE_TYPE_INVALID \<Rightarrow> Returned False L error channel
            | LINE_TYPE_other \<Rightarrow>
                parse_events_loop H log_version channel event_list_dest L error)))"

text \<open>
  \<open>parse_events\<close>: the lists are the globals as the call finds them, and
  \<open>event_list_dest\<close> starts uninitialised.
\<close>

definition parse_events ::
  "helpers \<Rightarrow> string list \<Rightarrow> int \<Rightarrow> event_lists \<Rightarrow> GError option \<Rightarrow> parse_outcome" where
  "parse_events H input_channel log_version L error =
     parse_events_loop H log_version input_channel None L error"

section \<open>ps2emu-replay: the device and the clock\<close>

text \<open>
  What a call on the channel of \<open>/dev/ps2emu\<close> can do: succeed
  (\<open>G_IO_STATUS_NORMAL\<close>, with the byte read), fail with a \<open>GError\<close>
  (\<open>G_IO_STATUS_ERROR\<close>), or return \<open>G_IO_STATUS_EOF\<close> or \<open>G_IO_STATUS_AGAIN\<close>,
  which set no error.
\<close>

datatype 'a io_outcome = IO_normal 'a | IO_error GError | IO_eof | IO_again

fun status_of :: "'a io_outcome \<Rightarrow> GIOStatus" where
  "status_of (IO_normal x) = G_IO_STATUS_NORMAL"
| "status_of (IO_error e) = G_IO_STATUS_ERROR"
| "status_of IO_eof = G_IO_STATUS_EOF"
| "status_of IO_again = G_IO_STATUS_AGAIN"

fun error_of :: "'a io_outcome \<Rightarrow> GError option" where
  "error_of (IO_error e) = Some e"
| "error_of _ = None"

text \<open>
  The environment of a run, fixed in advance: how long the \<open>n\<close>-th operation takes
  beyond what it asks for (for a sleep, by how much it oversleeps), and what the
  \<open>n\<close>-th write and the \<open>n\<close>-th read on the device do.
\<close>

record env =
  latency :: "nat \<Rightarrow> nat"
  write_outcome :: "nat \<Rightarrow> unit io_outcome"
  read_outcome :: "nat \<Rightarrow> 8 word io_outcome"
  open_error :: "GError option"

text \<open>The command types of \<open><ps2emu.h>\<close>, and \<open>SERIO_8042\<close> of \<open><linux/serio.h>\<close>.\<close>

datatype ps2emu_cmd_type =
    PS2EMU_CMD_BEGIN
  | PS2EMU_CMD_SET_PORT_TYPE
  | PS2EMU_CMD_SEND_INTERRUPT

definition SERIO_8042 :: "8 word" where
  "SERIO_8042 = 1"

text \<open>
  What the program does to the outside: it sleeps, it writes a two-byte command, it
  prints a line. The trace holds each action with the time on the monotonic clock at
  which it starts.
\<close>

datatype action =
    Usleep nat
  | Write_cmd ps2emu_cmd_type "8 word"
  | Printf string

text \<open>
  The monotonic clock counts microseconds; it never runs backwards and stays far
  below \<open>2^63\<close>, so the differences the program computes are those of the integers.
\<close>

record world =
  clock :: int
  ops :: nat
  writes :: nat
  reads :: nat
  trace :: "(int \<times> action) list"

definition elapse :: "env \<Rightarrow> world \<Rightarrow> world" where
  "elapse E w = w\<lparr>clock := clock w + int (latency E (ops w)), ops := Suc (ops w)\<rparr>"

definition act :: "action \<Rightarrow> world \<Rightarrow> world" where
  "act a w = w\<lparr>trace := trace w @ [(clock w, a)]\<rparr>"

definition g_get_monotonic_time :: "env \<Rightarrow> world \<Rightarrow> int \<times> world" where
  "g_get_monotonic_time E w = (clock w, elapse E w)"

text \<open>\<open>g_usleep\<close> returns once at least the requested time has passed.\<close>

definition g_usleep :: "env \<Rightarrow> nat \<Rightarrow> world \<Rightarrow> world" where
  "g_usleep E microseconds w =
     elapse E ((act (Usleep microseconds) w)\<lparr>clock := clock w + int microseconds\<rparr>)"

definition printf :: "env \<Rightarrow> string \<Rightarrow> world \<Rightarrow> world" where
  "printf E text w = elapse E (act (Printf text) w)"

text \<open>\<open>%hhx\<close> and \<open>%d\<close> as \<open>printf\<close> writes them.\<close>

definition hex_char :: "nat \<Rightarrow> char" where
  "hex_char d = ''0123456789abcdef'' ! d"

definition show_hhx :: "8 word \<Rightarrow> string" where
  "show_hhx b =
     (if unat b < 16 then [hex_char (unat b)]
      else [hex_char (unat b div 16), hex_char (unat b mod 16)])"

definition digit_char :: "nat \<Rightarrow> char" where
  "digit_char d = ''0123456789'' ! d"

fun show_nat :: "nat \<Rightarrow> string" where
  "show_nat n =
     (if n < 10 then [digit_char n] else show_nat (n div 10) @ [digit_char (n mod 10)])"

declare show_nat.simps [simp del]

definition show_int :: "int \<Rightarrow> string" where
  "show_int i = (if i < 0 then CHR ''-'' # show_nat (nat (- i)) else show_nat (nat i))"

text \<open>
  \<open>send_ps2emu_cmd\<close> writes the two bytes of \<open>struct ps2emu_cmd\<close>. It returns the
  status, the world and the error the write sets; the callers hold no error when they
  call it.
\<close>

definition send_ps2emu_cmd ::
  "env \<Rightarrow> ps2emu_cmd_type \<Rightarrow> 8 word \<Rightarrow> world \<Rightarrow> GIOStatus \<times> world \<times> GError option" where
  "send_ps2emu_cmd E cmd_type cmd_data w =
     (let r = write_outcome E (writes w);
          w = w\<lparr>writes := Suc (writes w)\<rparr>;
          w = (if status_of r = G_IO_STATUS_NORMAL then act (Write_cmd cmd_type cmd_data) w else w)
      in (status_of r, elapse E w, error_of r))"

definition simulate_interrupt ::
  "env \<Rightarrow> int \<Rightarrow> PS2Event \<Rightarrow> world \<Rightarrow> bool \<times> world \<times> GError option" where
  "simulate_interrupt E start_time event w =
     (case g_get_monotonic_time E w of (now, w) \<Rightarrow>
      let current_time = now - start_time;
          w = (if current_time < sint (time event)
               then g_usleep E (nat (sint (time event) - current_time)) w
               else w)
      in case send_ps2emu_cmd E PS2EMU_CMD_SEND_INTERRUPT (data event) w of (rc, w, error) \<Rightarrow>
        if rc \<noteq> G_IO_STATUS_NORMAL then (False, w, error) else (True, w, error))"

text \<open>\<open>g_io_channel_read_chars\<close> for one byte.\<close>

definition g_io_channel_read_chars ::
  "env \<Rightarrow> world \<Rightarrow> 8 word io_outcome \<times> world" where
  "g_io_channel_read_chars E w = (read_outcome E (reads w), elapse E (w\<lparr>reads := Suc (reads w)\<rparr>))"

definition simulate_receive ::
  "env \<Rightarrow> PS2Event \<Rightarrow> world \<Rightarrow> bool \<times> world \<times> GError option" where
  "simulate_receive E event w =
     (case g_io_channel_read_chars E w of (r, w) \<Rightarrow>
      (case r of
         IO_normal received \<Rightarrow>
           if data event = received
           then (True, printf E (''Received expected data '' @ show_hhx received @ ''\<newline>'') w,
                 None)
           else (True,
                 printf E (''Expected '' @ show_hhx (data event) @ '', received ''
                             @ show_hhx received @ ''\<newline>'') w,
                 None)
       | _ \<Rightarrow> (False, w, error_of r)))"

text \<open>The loop of \<open>replay_event_list\<close>.\<close>

fun replay_loop ::
  "env \<Rightarrow> int \<Rightarrow> PS2Event list \<Rightarrow> world \<Rightarrow> bool \<times> world \<times> GError option" where
  "replay_loop E start_time [] w = (True, w, None)"
| "replay_loop E start_time (event # l) w =
     (if type event = PS2_EVENT_TYPE_INTERRUPT then
        (case simulate_interrupt E start_time event w of (ok, w, error) \<Rightarrow>
         if \<not> ok then (False, w, error) else replay_loop E start_time l w)
      else
        (case simulate_receive E event w of (ok, w, error) \<Rightarrow>
         if \<not> ok then (False, w, error) else replay_loop E start_time l w))"

definition replay_event_list ::
  "env \<Rightarrow> PS2Event list \<Rightarrow> world \<Rightarrow> bool \<times> world \<times> GError option" where
  "replay_event_list E events w =
     (case g_get_monotonic_time E w of (start_time, w) \<Rightarrow> replay_loop E start_time events w)"

section \<open>ps2emu-replay: \<open>main\<close>\<close>

text \<open>
  How \<open>main\<close> ends: \<open>return 0\<close>; \<open>return 1\<close> after printing the error message; the
  read of \<open>error->message\<close> at the label \<open>error\<close> with no error set; or the undefined
  store of \<open>parse_events\<close>.
\<close>

datatype exit_status =
    Return_0
  | Return_1 string
  | Null_error
  | Undefined

record main_result =
  status :: exit_status
  input_left :: "string list"
  lists :: event_lists
  device :: world

definition at_error :: "GError option \<Rightarrow> exit_status" where
  "at_error error =
     (case error of
        None \<Rightarrow> Null_error
      | Some (code, message) \<Rightarrow> Return_1 (''Error: '' @ message @ ''\<newline>''))"

definition too_new :: "int \<Rightarrow> int \<Rightarrow> string" where
  "too_new log_version supported =
     ''Log version is too new (found '' @ show_int log_version
       @ '', we only support up to '' @ show_int supported @ '')''"

text \<open>The end of \<open>main\<close>: the replay of the lists the version selects.\<close>

definition replay_lists ::
  "env \<Rightarrow> int \<Rightarrow> event_lists \<Rightarrow> world \<Rightarrow> bool \<times> world \<times> GError option" where
  "replay_lists E log_version L w =
     (if log_version = 0 then replay_event_list E (event_list L) w
      else
        (let w = printf E ''Replaying initialization sequence...\<newline>'' w in
         case replay_event_list E (init_event_list L) w of (ok, w, error) \<Rightarrow>
           if \<not> ok then (False, w, error)
           else
             (let w = printf E ''Replaying event sequence...\<newline>'' w
              in replay_event_list E (main_event_list L) w)))"

text \<open>
  \<open>main\<close> from the point where the log file has been opened. \<open>PS2EMU_LOG_VERSION\<close>
  is a macro of \<open>ps2emu-misc.h\<close> and an argument here, as is the indeterminate content
  of the local of \<open>parse_log_version\<close>. Setting the encoding of the fresh device
  channel to \<open>NULL\<close> is taken to succeed.
\<close>

definition main ::
  "helpers \<Rightarrow> env \<Rightarrow> int \<Rightarrow> int \<Rightarrow> string list \<Rightarrow> world \<Rightarrow> main_result" where
  "main H E PS2EMU_LOG_VERSION indeterminate input_channel w =
     (case parse_log_version indeterminate input_channel None of
        (log_version, input_channel, error) \<Rightarrow>
      if log_version > PS2EMU_LOG_VERSION then
        \<lparr>status = at_error (g_set_error error
                      (PS2EMU_ERROR_INPUT, too_new log_version PS2EMU_LOG_VERSION)),
         input_left = input_channel, lists = no_events, device = w\<rparr>
      else
        (case parse_events H input_channel log_version no_events error of
           Undefined_store \<Rightarrow>
             \<lparr>status = Undefined, input_left = input_channel, lists = no_events, device = w\<rparr>
         | Returned ok L error input_channel \<Rightarrow>
             if \<not> ok then
               \<lparr>status = at_error error, input_left = input_channel, lists = L, device = w\<rparr>
             else
               (case open_error E of
                  Some e \<Rightarrow>
                    \<lparr>status = at_error (g_prefix_error (g_set_error error e)
                                  ''While opening /dev/ps2emu: ''),
                     input_left = input_channel, lists = L, device = w\<rparr>
                | None \<Rightarrow>
                    (case send_ps2emu_cmd E PS2EMU_CMD_SET_PORT_TYPE SERIO_8042 w of
                       (rc, w, e) \<Rightarrow>
                     let error = set_by error e in
                     if rc \<noteq> G_IO_STATUS_NORMAL then
                       \<lparr>status = at_error (g_prefix_error error
                                     ''While setting port type on /dev/ps2emu: ''),
                        input_left = input_channel, lists = L, device = w\<rparr>
                     else
                       (case send_ps2emu_cmd E PS2EMU_CMD_BEGIN SERIO_8042 w of
                          (rc, w, e) \<Rightarrow>
                        let error = set_by error e in
                        if rc \<noteq> G_IO_STATUS_NORMAL then
                          \<lparr>status = at_error (g_prefix_error error
                                        ''While starting device on /dev/ps2emu: ''),
                           input_left = input_channel, lists = L, device = w\<rparr>
                        else
                          (case replay_lists E log_version L w of (ok, w, e) \<Rightarrow>
                           let error = set_by error e in
                           if \<not> ok then
                             \<lparr>status = at_error error,
                              input_left = input_channel, lists = L, device = w\<rparr>
                           else
                             \<lparr>status = Return_0,
                              input_left = input_channel, lists = L, device = w\<rparr>))))))"

section \<open>The specification's reading of the log\<close>

text \<open>
  The events of a versioned log in the order of the file, each with the list named by
  the latest section marker before it: what section 4.4 of the specification says the
  section state machine delivers. Lines that carry neither an event nor a marker are
  passed over.
\<close>

fun routed ::
  "helpers \<Rightarrow> dest option \<Rightarrow> string list \<Rightarrow> (dest \<times> PS2Event) list" where
  "routed H current [] = []"
| "routed H current (line # rest) =
     (case get_line_type H line of (line_type, msg_start, e) \<Rightarrow>
      (case line_type of
         LINE_TYPE_EVENT \<Rightarrow>
           (case (fst (ps2_event_from_line H msg_start), current) of
              (Some event, Some d) \<Rightarrow> (d, event) # routed H current rest
            | _ \<Rightarrow> routed H current rest)
       | LINE_TYPE_SECTION \<Rightarrow>
           (case fst (section_type_from_line H msg_start) of
              SECTION_TYPE_INIT \<Rightarrow> routed H (Some INIT_EVENT_LIST) rest
            | SECTION_TYPE_MAIN \<Rightarrow> routed H (Some MAIN_EVENT_LIST) rest
            | _ \<Rightarrow> routed H current rest)
       | _ \<Rightarrow> routed H current rest))"

definition sequence_of :: "dest \<Rightarrow> (dest \<times> PS2Event) list \<Rightarrow> PS2Event list" where
  "sequence_of d tagged = map snd (filter (\<lambda>p. fst p = d) tagged)"

text \<open>
  A well-formed versioned log: every line is an event line or a section marker, no
  line makes a helper report an error, the markers are \<open>Init\<close> or \<open>Main\<close>, and no
  event comes before the first marker.
\<close>

fun well_formed :: "helpers \<Rightarrow> dest option \<Rightarrow> string list \<Rightarrow> bool" where
  "well_formed H current [] = True"
| "well_formed H current (line # rest) =
     (case get_line_type H line of
        (LINE_TYPE_EVENT, msg_start, None) \<Rightarrow>
          (case ps2_event_from_line H msg_start of
             (Some event, None) \<Rightarrow> current \<noteq> None \<and> well_formed H current rest
           | (None, None) \<Rightarrow> well_formed H current rest
           | _ \<Rightarrow> False)
      | (LINE_TYPE_SECTION, msg_start, None) \<Rightarrow>
          (case section_type_from_line H msg_start of
             (SECTION_TYPE_INIT, None) \<Rightarrow> well_formed H (Some INIT_EVENT_LIST) rest
           | (SECTION_TYPE_MAIN, None) \<Rightarrow> well_formed H (Some MAIN_EVENT_LIST) rest
           | _ \<Rightarrow> False)
      | _ \<Rightarrow> False)"

text \<open>
  An event-source line that is passed over (\<open>ps2_event_from_line\<close> returns \<open>NULL\<close>
  and nothing reports an error), and an event-source line that yields an event.
\<close>

definition skipped_line :: "helpers \<Rightarrow> string \<Rightarrow> bool" where
  "skipped_line H line =
     (case get_line_type H line of
        (LINE_TYPE_EVENT, msg_start, None) \<Rightarrow> ps2_event_from_line H msg_start = (None, None)
      | _ \<Rightarrow> False)"

definition yields_event :: "helpers \<Rightarrow> string \<Rightarrow> bool" where
  "yields_event H line =
     (case get_line_type H line of
        (LINE_TYPE_EVENT, msg_start, e) \<Rightarrow> fst (ps2_event_from_line H msg_start) \<noteq> None
      | _ \<Rightarrow> False)"

text \<open>The kind of a data-bearing payload: the text in the parentheses up to the first comma.\<close>

definition kind_of :: "string \<Rightarrow> string" where
  "kind_of type_str = (case g_strsplit type_str of [] \<Rightarrow> [] | kind # args \<Rightarrow> kind)"

text \<open>
  The outbound interrupt frames of a trace with the times at which they were written.
\<close>

fun interrupt_frames :: "(int \<times> action) list \<Rightarrow> (int \<times> 8 word) list" where
  "interrupt_frames [] = []"
| "interrupt_frames ((t, a) # rest) =
     (case a of
        Write_cmd PS2EMU_CMD_SEND_INTERRUPT d \<Rightarrow> (t, d) # interrupt_frames rest
      | _ \<Rightarrow> interrupt_frames rest)"

definition is_interrupt :: "PS2Event \<Rightarrow> bool" where
  "is_interrupt event \<longleftrightarrow> type event = PS2_EVENT_TYPE_INTERRUPT"

section \<open>Helpers and environments for concrete runs\<close>

text \<open>
  Modelled from the spec: the definitions of \<open>get_line_type\<close>,
  \<open>section_type_from_line\<close> and \<open>ps2_event_from_line\<close> are missing from the sources.
  This instance follows sections 4.2, 4.3 and 6 of the specification: a line of a
  versioned log carries one of the two source markers, \<open>"i8042: "\<close> for an event and
  \<open>"ps2emu: "\<close> for an annotation, and the payload follows the marker; an annotation
  is the section marker \<open>Init\<close> or \<open>Main\<close>; an event payload has one of the two event
  shapes, tried in order. The theorems below hold for any helpers; this instance is
  what the concrete logs are run with.
\<close>

fun strstr :: "string \<Rightarrow> string \<Rightarrow> string option" where
  "strstr [] needle = (if needle = [] then Some [] else None)"
| "strstr (c # cs) needle =
     (if take (length needle) (c # cs) = needle then Some (c # cs) else strstr cs needle)"

definition spec_get_line_type :: "string \<Rightarrow> LineType \<times> string \<times> GError option" where
  "spec_get_line_type line =
     (case strstr line ''i8042: '' of
        Some found \<Rightarrow> (LINE_TYPE_EVENT, drop (length ''i8042: '') found, None)
      | None \<Rightarrow>
          (case strstr line ''ps2emu: '' of
             Some found \<Rightarrow> (LINE_TYPE_SECTION, drop (length ''ps2emu: '') found, None)
           | None \<Rightarrow> (LINE_TYPE_INVALID, [], None)))"

definition spec_section_type_from_line :: "string \<Rightarrow> LogSectionType \<times> GError option" where
  "spec_section_type_from_line msg_start =
     (if takeWhile (\<lambda>c. \<not> isspace c) msg_start = ''Init'' then (SECTION_TYPE_INIT, None)
      else if takeWhile (\<lambda>c. \<not> isspace c) msg_start = ''Main'' then (SECTION_TYPE_MAIN, None)
      else (SECTION_TYPE_ERROR, Some (PS2EMU_ERROR_INPUT, ''Invalid section type'')))"

definition blank_event :: PS2Event where
  "blank_event =
     \<lparr>time = 0, type = PS2_EVENT_TYPE_COMMAND, data = 0, has_data = False, irq = 0, port = 0\<rparr>"

definition spec_ps2_event_from_line :: "string \<Rightarrow> PS2Event option \<times> GError option" where
  "spec_ps2_event_from_line msg_start =
     (case parse_normal_event msg_start blank_event of (ok, event, error) \<Rightarrow>
      if ok then (Some event, None)
      else if error \<noteq> None then (None, error)
      else
        (case parse_interrupt_without_data msg_start event of (ok, event) \<Rightarrow>
         if ok then (Some event, None) else (None, None)))"

definition spec_helpers :: helpers where
  "spec_helpers =
     \<lparr>get_line_type = spec_get_line_type,
      ps2_event_from_line = spec_ps2_event_from_line,
      section_type_from_line = spec_section_type_from_line\<rparr>"

text \<open>
  Two environments: in both every write succeeds and the device answers every read
  with the byte \<open>0xfa\<close>. In the first no operation takes any time beyond the sleeps
  asked for; in the second the very first operation takes 100 microseconds.
\<close>

definition prompt_env :: env where
  "prompt_env =
     \<lparr>latency = (\<lambda>n. 0), write_outcome = (\<lambda>n. IO_normal ()),
      read_outcome = (\<lambda>n. IO_normal 0xfa), open_error = None\<rparr>"

definition slow_start_env :: env where
  "slow_start_env =
     \<lparr>latency = (\<lambda>n. if n = 0 then 100 else 0), write_outcome = (\<lambda>n. IO_normal ()),
      read_outcome = (\<lambda>n. IO_normal 0xfa), open_error = None\<rparr>"

definition init_marker :: string where
  "init_marker = ''ps2emu: Init\<newline>''"

definition main_marker :: string where
  "main_marker = ''ps2emu: Main\<newline>''"

definition event_line_1 :: string where
  "event_line_1 = ''i8042: [1000] 5f <- i8042 (interrupt,0,1)\<newline>''"

definition event_line_2 :: string where
  "event_line_2 = ''i8042: [2000] f4 -> i8042 (parameter)\<newline>''"

definition event_line_3 :: string where
  "event_line_3 = ''i8042: [50000] fa <- i8042 (interrupt,1,12)\<newline>''"

definition other_line :: string where
  "other_line = ''i8042: [3000] i8042 controller selftest\<newline>''"

text \<open>The events the three event lines stand for.\<close>

definition event_1 :: PS2Event where
  "event_1 = \<lparr>time = 1000, type = PS2_EVENT_TYPE_INTERRUPT, data = 0x5f, has_data = True,
              irq = 1, port = 0\<rparr>"

definition event_2 :: PS2Event where
  "event_2 = \<lparr>time = 2000, type = PS2_EVENT_TYPE_PARAMETER, data = 0xf4, has_data = True,
              irq = 0, port = 0\<rparr>"

definition event_3 :: PS2Event where
  "event_3 = \<lparr>time = 50000, type = PS2_EVENT_TYPE_INTERRUPT, data = 0xfa, has_data = True,
              irq = 12, port = 1\<rparr>"

text \<open>
  A versioned log body: the \<open>Init\<close> marker, two events, the \<open>Main\<close> marker, one event.
\<close>

definition versioned_log :: "string list" where
  "versioned_log = [init_marker, event_line_1, event_line_2, main_marker, event_line_3]"

text \<open>Two interrupts recorded at 0 and at 50000 microseconds, and a reply to read.\<close>

definition interrupt_at_0 :: PS2Event where
  "interrupt_at_0 = \<lparr>time = 0, type = PS2_EVENT_TYPE_INTERRUPT, data = 0xaa, has_data = True,
                     irq = 12, port = 1\<rparr>"

definition interrupt_at_50000 :: PS2Event where
  "interrupt_at_50000 =
     \<lparr>time = 50000, type = PS2_EVENT_TYPE_INTERRUPT, data = 0x00, has_data = True,
      irq = 12, port = 1\<rparr>"

definition expected_reply :: PS2Event where
  "expected_reply = \<lparr>time = 100, type = PS2_EVENT_TYPE_PARAMETER, data = 0xf4, has_data = True,
                     irq = 0, port = 0\<rparr>"

text \<open>An environment in which the first read and the first write on the device fail.\<close>

definition failing_env :: env where
  "failing_env =
     \<lparr>latency = (\<lambda>n. 0),
      write_outcome = (\<lambda>n. if n = 0 then IO_error (G_IO_CHANNEL_ERROR, ''Input/output error'')
                           else IO_normal ()),
      read_outcome = (\<lambda>n. if n = 0 then IO_eof else IO_normal 0xfa), open_error = None\<rparr>"

text \<open>
  An environment in which the device accepts the two set-up commands and fails the
  third write, and a versioned log file with its header line.
\<close>

definition unplugged_env :: env where
  "unplugged_env =
     \<lparr>latency = (\<lambda>n. 0),
      write_outcome = (\<lambda>n. if n < 2 then IO_normal ()
                           else IO_error (G_IO_CHANNEL_ERROR, ''No such device'')),
      read_outcome = (\<lambda>n. IO_eof), open_error = None\<rparr>"

text \<open>An environment in which every write succeeds and every read returns end of file.\<close>

definition silent_env :: env where
  "silent_env =
     \<lparr>latency = (\<lambda>n. 0), write_outcome = (\<lambda>n. IO_normal ()),
      read_outcome = (\<lambda>n. IO_eof), open_error = None\<rparr>"

definition versioned_file :: "string list" where
  "versioned_file = ''# ps2emu-record V1\<newline>'' # versioned_log"

text \<open>A log in the legacy format: no header line, the event payloads without markers.\<close>

definition legacy_log :: "string list" where
  "legacy_log = [''[1000] 5f <- i8042 (interrupt,0,1)\<newline>'',
                 ''[2000] f4 -> i8042 (parameter)\<newline>'']"

definition boot_world :: world where
  "boot_world = \<lparr>clock = 0, ops = 0, writes = 0, reads = 0, trace = []\<rparr>"

section \<open>Properties of the event parser of ps2emu-record\<close>

lemmas scan_eval =
  sscanf_def lits_def skip_ws_def isspace_def scan_decimal_def scan_hex_def hex_digits_def
  digit_of_def
  xdigit_of_def to_long_def to_uchar_def LONG_MAX_def LONG_MIN_def ULONG_MAX_def
  matching_failure_def input_failure_def g_strsplit_def strtol_def ERANGE_def

text \<open>
  When \<open>sscanf\<close> returns 3 for the data-bearing format, it has stored a time, a data
  byte and a non-empty string, in this order.
\<close>

lemma normal_scan_shape:
  "sscanf s normal_event_format = (3, vs, e) \<Longrightarrow>
     \<exists>t d ts. vs = [VLong t, VByte d, VStr ts] \<and> ts \<noteq> []"
  by (auto simp: normal_event_format_def sscanf_def lits_def matching_failure_def
        input_failure_def Let_def
      split: list.splits option.splits if_splits prod.splits)

lemma kind_of_plain:
  "kind_of ''command'' = ''command''" "kind_of ''parameter'' = ''parameter''"
  "kind_of ''return'' = ''return''" "kind_of ''kbd-data'' = ''kbd-data''"
  by (simp_all add: kind_of_def g_strsplit_def)

lemma kind_of_interrupt:
  "(case g_strsplit ts of [] \<Rightarrow> False | arg0 # _ \<Rightarrow> arg0 = ''interrupt'')
     \<longleftrightarrow> kind_of ts = ''interrupt''"
  by (auto simp: kind_of_def split: list.splits)

text \<open>
  C1, as the specification states it, fails: in the payload
  \<open>"[1000] 5f >i i8042 (interrupt,0,1)\n"\<close> the direction is \<open>>i\<close>, and the format
  accepts only one of \<open>-\<close>, \<open><\<close> followed by one of \<open>-\<close>, \<open>>\<close>. \<open>sscanf\<close> stops
  after the data byte and returns 2, so the parser returns \<open>FALSE\<close> without an error,
  having stored the time and the data only.
\<close>

theorem spec_example_arrow_rejected:
  "parse_normal_event ''[1000] 5f >i i8042 (interrupt,0,1)\<newline>'' blank_event
     = (False, blank_event\<lparr>time := 1000, data := 0x5f\<rparr>, None)"
  by (simp add: parse_normal_event_def normal_event_format_def scan_eval)

text \<open>
  C1, amended: with a direction the format accepts, the payload
  \<open>"[1000] 5f <- i8042 (interrupt,0,1)\n"\<close> is parsed with success, and the event is
  an interrupt with time 1000, data \<open>0x5f\<close>, port 0, IRQ 1 and \<open>has_data\<close> set,
  whatever the event held before.
\<close>

theorem interrupt_line_parsed:
  "parse_normal_event ''[1000] 5f <- i8042 (interrupt,0,1)\<newline>'' event
     = (True,
        event\<lparr>time := 1000, data := 0x5f, type := PS2_EVENT_TYPE_INTERRUPT,
               port := 0, irq := 1, has_data := True\<rparr>,
        None)"
  by (simp add: parse_normal_event_def normal_event_format_def scan_eval)

text \<open>
  C1, amended, on an event that holds nothing yet: every field of the result is known.
\<close>

theorem interrupt_line_parsed_witness:
  "parse_normal_event ''[1000] 5f <- i8042 (interrupt,0,1)\<newline>'' blank_event
     = (True,
        \<lparr>time = 1000, type = PS2_EVENT_TYPE_INTERRUPT, data = 0x5f, has_data = True,
         irq = 1, port = 0\<rparr>,
        None)"
  using interrupt_line_parsed [of blank_event] by (simp add: blank_event_def)

text \<open>
  C4 at the failing input: the port argument \<open>abc\<close> is not a number, \<open>strtol\<close>
  returns 0 for it and leaves \<open>errno\<close> alone, and the parser returns \<open>TRUE\<close> with
  port 0 instead of reporting an input error.
\<close>

theorem non_numeric_port_accepted:
  "parse_normal_event ''[1000] 5f <- i8042 (interrupt,abc,1)\<newline>'' blank_event
     = (True,
        \<lparr>time = 1000, type = PS2_EVENT_TYPE_INTERRUPT, data = 0x5f, has_data = True,
         irq = 1, port = 0\<rparr>,
        None)"
  by (simp add: parse_normal_event_def normal_event_format_def scan_eval blank_event_def)

text \<open>At that input the call succeeds, sets no error, and the port it stores is 0.\<close>

theorem non_numeric_port_accepted_witness:
  "fst (parse_normal_event ''[1000] 5f <- i8042 (interrupt,abc,1)\<newline>'' blank_event)
   \<and> snd (snd (parse_normal_event ''[1000] 5f <- i8042 (interrupt,abc,1)\<newline>''
                   blank_event)) = None
   \<and> port (fst (snd (parse_normal_event
                          ''[1000] 5f <- i8042 (interrupt,abc,1)\<newline>'' blank_event)))
       = 0"
  using non_numeric_port_accepted by simp

text \<open>
  C10: when a payload matches the data-bearing format (\<open>sscanf\<close> returns 3 with
  \<open>errno\<close> clear) and its kind is none of \<open>interrupt\<close>, \<open>command\<close>, \<open>parameter\<close>,
  \<open>return\<close> and \<open>kbd-data\<close>, the parser returns \<open>TRUE\<close> without an error, with
  \<open>has_data\<close> set and the time and data stored, and the type of the event is the one
  it held before the call.
\<close>

theorem unknown_kind_keeps_type:
  assumes scan: "sscanf start_pos normal_event_format = (3, vs, 0)"
    and kind: "kind_of (stored_type_str vs)
                 \<notin> set [''interrupt'', ''command'', ''parameter'', ''return'', ''kbd-data'']"
  shows "parse_normal_event start_pos event =
           (True, (store_normal vs event)\<lparr>has_data := True\<rparr>, None)
         \<and> type (fst (snd (parse_normal_event start_pos event))) = type event"
proof -
  obtain t d ts where vs: "vs = [VLong t, VByte d, VStr ts]" and ne: "ts \<noteq> []"
    using normal_scan_shape [OF scan] by blast
  have k: "kind_of ts \<noteq> ''interrupt''" "ts \<noteq> ''command''" "ts \<noteq> ''parameter''"
          "ts \<noteq> ''return''" "ts \<noteq> ''kbd-data''"
    using kind kind_of_plain by (auto simp: vs)
  have ni: "\<not> (case g_strsplit ts of [] \<Rightarrow> False | arg0 # _ \<Rightarrow> arg0 = ''interrupt'')"
    using k(1) by (simp add: kind_of_interrupt)
  show ?thesis
    using ni k(2-5) by (simp add: parse_normal_event_def scan vs)
qed

lemma scan_foo:
  "sscanf ''[1000] 5f <- i8042 (foo)\<newline>'' normal_event_format
     = (3, [VLong 1000, VByte 0x5f, VStr ''foo''], 0)"
  by (simp add: normal_event_format_def scan_eval)

text \<open>
  C10 on the kind \<open>foo\<close>: the event was a return value before the call and still is.
\<close>

theorem unknown_kind_keeps_type_witness:
  "sscanf ''[1000] 5f <- i8042 (foo)\<newline>'' normal_event_format
     = (3, [VLong 1000, VByte 0x5f, VStr ''foo''], 0)
   \<and> kind_of ''foo'' = ''foo''
   \<and> parse_normal_event ''[1000] 5f <- i8042 (foo)\<newline>''
        (blank_event\<lparr>type := PS2_EVENT_TYPE_RETURN\<rparr>)
       = (True,
          \<lparr>time = 1000, type = PS2_EVENT_TYPE_RETURN, data = 0x5f, has_data = True,
           irq = 0, port = 0\<rparr>,
          None)"
proof -
  have k: "kind_of ''foo'' = ''foo''"
    by (simp add: kind_of_def g_strsplit_def)
  have "kind_of (stored_type_str [VLong 1000, VByte 0x5f, VStr ''foo''])
          \<notin> set [''interrupt'', ''command'', ''parameter'', ''return'', ''kbd-data'']"
    by (simp add: k)
  from unknown_kind_keeps_type
         [OF scan_foo this, of "blank_event\<lparr>type := PS2_EVENT_TYPE_RETURN\<rparr>"]
  show ?thesis using scan_foo k by (simp add: blank_event_def)
qed

section \<open>The inclusion policy of ps2emu-record\<close>

text \<open>
  C7: with the keyboard excluded, \<open>process_event\<close> prints nothing for a keyboard-data
  event and for an interrupt on port 0; with the auxiliary port excluded, it prints
  nothing for an interrupt on another port and for any event that is neither an
  interrupt nor keyboard data; with the keyboard excluded and the auxiliary port
  included, an interrupt on a port other than 0 is printed.
\<close>

theorem inclusion_policy:
  "(\<not> kbd1 \<and> (type e1 = PS2_EVENT_TYPE_KBD_DATA
               \<or> type e1 = PS2_EVENT_TYPE_INTERRUPT \<and> port e1 = 0)
      \<longrightarrow> process_event kbd1 aux1 to_string e1 out1 = (True, out1))
   \<and> (\<not> aux2 \<and> (type e2 = PS2_EVENT_TYPE_INTERRUPT \<and> port e2 \<noteq> 0
                 \<or> type e2 \<noteq> PS2_EVENT_TYPE_INTERRUPT \<and> type e2 \<noteq> PS2_EVENT_TYPE_KBD_DATA)
      \<longrightarrow> process_event kbd2 aux2 to_string e2 out2 = (True, out2))
   \<and> (\<not> kbd3 \<and> aux3 \<and> type e3 = PS2_EVENT_TYPE_INTERRUPT \<and> port e3 \<noteq> 0
      \<longrightarrow> process_event kbd3 aux3 to_string e3 out3
            = (True, out3 @ [to_string e3 @ ''\<newline>'']))"
  by (simp add: process_event_def KEYBOARD_PORT_def)

text \<open>
  C7 on a keyboard-data event, a command and an interrupt on port 1.
\<close>

theorem inclusion_policy_witness:
  "process_event False True (\<lambda>e. ''event'') (blank_event\<lparr>type := PS2_EVENT_TYPE_KBD_DATA\<rparr>) []
     = (True, [])
   \<and> process_event True False (\<lambda>e. ''event'') (blank_event\<lparr>type := PS2_EVENT_TYPE_COMMAND\<rparr>) []
     = (True, [])
   \<and> process_event False True (\<lambda>e. ''event'')
        (blank_event\<lparr>type := PS2_EVENT_TYPE_INTERRUPT, port := 1\<rparr>) []
     = (True, [''event\<newline>''])"
  using inclusion_policy [of False "blank_event\<lparr>type := PS2_EVENT_TYPE_KBD_DATA\<rparr>" True
      "\<lambda>e. ''event''" "[]" False "blank_event\<lparr>type := PS2_EVENT_TYPE_COMMAND\<rparr>" True "[]"
      False True "blank_event\<lparr>type := PS2_EVENT_TYPE_INTERRUPT, port := 1\<rparr>" "[]"]
  by (simp add: blank_event_def)

section \<open>The section state machine of ps2emu-replay\<close>

lemma loop_error_set:
  "error \<noteq> None \<Longrightarrow> parse_events_loop H v chan d L error = Returned False L error chan"
  by (cases chan) (auto simp: after_loop_def g_io_channel_read_line_def)

lemma set_by_None [simp]: "set_by None e = e"
  by (simp add: set_by_def g_set_error_def split: option.splits)

lemma sequence_of_Cons:
  "sequence_of d ((d', e) # xs) = (if d' = d then e # sequence_of d xs else sequence_of d xs)"
  by (simp add: sequence_of_def)

lemma sequence_of_Nil [simp]: "sequence_of d [] = []"
  by (simp add: sequence_of_def)

lemma loop_routed:
  "1 \<le> v \<Longrightarrow> d \<noteq> Some EVENT_LIST \<Longrightarrow>
   parse_events_loop H v chan d L None = Returned True L' err rest \<Longrightarrow>
     init_event_list L' = rev (init_event_list L) @ sequence_of INIT_EVENT_LIST (routed H d chan)
     \<and> main_event_list L' = rev (main_event_list L) @ sequence_of MAIN_EVENT_LIST (routed H d chan)
     \<and> event_list L' = event_list L \<and> err = None \<and> rest = []"
proof (induction chan arbitrary: d L)
  case Nil
  then show ?case
    by (auto simp: after_loop_def g_io_channel_read_line_def split: if_splits)
next
  case (Cons line chan)
  obtain lt msg e where g: "get_line_type H line = (lt, msg, e)"
    by (cases "get_line_type H line") auto
  obtain ev e2 where p: "ps2_event_from_line H msg = (ev, e2)"
    by (cases "ps2_event_from_line H msg") auto
  obtain st e3 where q: "section_type_from_line H msg = (st, e3)"
    by (cases "section_type_from_line H msg") auto
  show ?case
  proof (cases lt)
    case LINE_TYPE_EVENT
    show ?thesis
    proof (cases ev)
      case None
      with Cons.prems LINE_TYPE_EVENT g p show ?thesis
        by (cases e; cases e2)
           (auto simp: loop_error_set set_by_def g_set_error_def dest!: Cons.IH [OF \<open>1 \<le> v\<close>, rotated])
    next
      case (Some event)
      show ?thesis
      proof (cases d)
        case None
        with Cons.prems LINE_TYPE_EVENT g p Some show ?thesis by auto
      next
        case (Some dd)
        with Cons.prems LINE_TYPE_EVENT g p \<open>ev = Some event\<close> show ?thesis
          by (cases e; cases e2; cases dd)
             (auto simp: loop_error_set set_by_def g_set_error_def sequence_of_Cons
                   dest!: Cons.IH [OF \<open>1 \<le> v\<close>, rotated])
      qed
    qed
  next
    case LINE_TYPE_SECTION
    with Cons.prems g q show ?thesis
      by (cases e; cases e3; cases st)
         (auto simp: loop_error_set set_by_def g_set_error_def dest!: Cons.IH [OF \<open>1 \<le> v\<close>, rotated])
  next
    case LINE_TYPE_INVALID
    with Cons.prems g show ?thesis by auto
  next
    case LINE_TYPE_other
    with Cons.prems g show ?thesis
      by (cases e) (auto simp: loop_error_set set_by_def g_set_error_def dest!: Cons.IH [OF \<open>1 \<le> v\<close>, rotated])
  qed
qed

lemma loop_well_formed:
  "1 \<le> v \<Longrightarrow> well_formed H d chan \<Longrightarrow>
     \<exists>L'. parse_events_loop H v chan d L None = Returned True L' None []"
proof (induction chan arbitrary: d L)
  case Nil
  then show ?case by (simp add: after_loop_def g_io_channel_read_line_def)
next
  case (Cons line chan)
  then show ?case
    by (auto split: prod.splits LineType.splits option.splits LogSectionType.splits)
qed

lemma loop_undefined:
  "1 \<le> v \<Longrightarrow> \<forall>l \<in> set pre. skipped_line H l \<Longrightarrow> yields_event H line \<Longrightarrow>
     parse_events_loop H v (pre @ line # post) None L None = Undefined_store"
proof (induction pre)
  case Nil
  then show ?case
    by (auto simp: yields_event_def split: prod.splits LineType.splits option.splits)
next
  case (Cons l pre)
  then show ?case
    by (auto simp: skipped_line_def split: prod.splits LineType.splits option.splits)
qed

lemma markers_classified:
  "get_line_type spec_helpers init_marker = (LINE_TYPE_SECTION, ''Init\<newline>'', None)"
  "get_line_type spec_helpers main_marker = (LINE_TYPE_SECTION, ''Main\<newline>'', None)"
  "section_type_from_line spec_helpers ''Init\<newline>'' = (SECTION_TYPE_INIT, None)"
  "section_type_from_line spec_helpers ''Main\<newline>'' = (SECTION_TYPE_MAIN, None)"
  by (simp_all add: spec_helpers_def spec_get_line_type_def spec_section_type_from_line_def
        init_marker_def main_marker_def isspace_def)

lemma event_lines_classified:
  "get_line_type spec_helpers event_line_1
     = (LINE_TYPE_EVENT, ''[1000] 5f <- i8042 (interrupt,0,1)\<newline>'', None)"
  "get_line_type spec_helpers event_line_2
     = (LINE_TYPE_EVENT, ''[2000] f4 -> i8042 (parameter)\<newline>'', None)"
  "get_line_type spec_helpers event_line_3
     = (LINE_TYPE_EVENT, ''[50000] fa <- i8042 (interrupt,1,12)\<newline>'', None)"
  "get_line_type spec_helpers other_line
     = (LINE_TYPE_EVENT, ''[3000] i8042 controller selftest\<newline>'', None)"
  by (simp_all add: spec_helpers_def spec_get_line_type_def
        event_line_1_def event_line_2_def event_line_3_def other_line_def)

lemma event_1_parsed:
  "ps2_event_from_line spec_helpers ''[1000] 5f <- i8042 (interrupt,0,1)\<newline>''
     = (Some event_1, None)"
  by (simp add: spec_helpers_def spec_ps2_event_from_line_def parse_normal_event_def
        normal_event_format_def scan_eval blank_event_def event_1_def)

lemma event_2_parsed:
  "ps2_event_from_line spec_helpers ''[2000] f4 -> i8042 (parameter)\<newline>''
     = (Some event_2, None)"
  by (simp add: spec_helpers_def spec_ps2_event_from_line_def parse_normal_event_def
        normal_event_format_def scan_eval blank_event_def event_2_def)

lemma event_3_parsed:
  "ps2_event_from_line spec_helpers ''[50000] fa <- i8042 (interrupt,1,12)\<newline>''
     = (Some event_3, None)"
  by (simp add: spec_helpers_def spec_ps2_event_from_line_def parse_normal_event_def
        normal_event_format_def scan_eval blank_event_def event_3_def)

lemma other_line_skipped:
  "ps2_event_from_line spec_helpers ''[3000] i8042 controller selftest\<newline>''
     = (None, None)"
  by (simp add: spec_helpers_def spec_ps2_event_from_line_def parse_normal_event_def
        parse_interrupt_without_data_def interrupt_without_data_format_def
        normal_event_format_def scan_eval blank_event_def)

lemmas example_lines =
  markers_classified event_lines_classified event_1_parsed event_2_parsed event_3_parsed
  other_line_skipped

text \<open>The example log, run through the loop.\<close>

lemma versioned_log_parsed:
  "parse_events spec_helpers versioned_log 1 no_events None
     = Returned True
         \<lparr>event_list = [], init_event_list = [event_1, event_2],
          main_event_list = [event_3]\<rparr>
         None []"
  by (simp add: parse_events_def versioned_log_def example_lines no_events_def after_loop_def
        g_io_channel_read_line_def)

text \<open>
  C2: for a log of version 1 or later, starting from the empty global lists. Whenever
  \<open>parse_events\<close> returns \<open>TRUE\<close>, the init list and the main list are the events
  of the log in the order of the file, each event in the list that the latest section
  marker before it selects (prepending and the final reversal cancel out). For a
  well-formed log \<open>parse_events\<close> does return \<open>TRUE\<close>, with exactly these lists,
  no error, and the whole file read. The log of the witness is the one of the claim:
  two init events, the main marker, one main event.
\<close>

theorem sections_in_input_order:
  assumes "1 \<le> log_version"
  shows "(parse_events H chan log_version no_events None = Returned True L err rest
            \<longrightarrow> init_event_list L = sequence_of INIT_EVENT_LIST (routed H None chan)
                \<and> main_event_list L = sequence_of MAIN_EVENT_LIST (routed H None chan)
                \<and> event_list L = [])
         \<and> (well_formed H None log
            \<longrightarrow> parse_events H log log_version no_events None
                  = Returned True
                      \<lparr>event_list = [],
                       init_event_list = sequence_of INIT_EVENT_LIST (routed H None log),
                       main_event_list = sequence_of MAIN_EVENT_LIST (routed H None log)\<rparr>
                      None [])"
proof (intro conjI impI)
  assume r: "parse_events H chan log_version no_events None = Returned True L err rest"
  from loop_routed [OF assms, of None H chan no_events L err rest] r
  show "init_event_list L = sequence_of INIT_EVENT_LIST (routed H None chan)"
    and "main_event_list L = sequence_of MAIN_EVENT_LIST (routed H None chan)"
    and "event_list L = []"
    by (simp_all add: parse_events_def no_events_def)
next
  assume wf: "well_formed H None log"
  from loop_well_formed [OF assms wf, of no_events]
  obtain L' where r: "parse_events_loop H log_version log None no_events None
                        = Returned True L' None []"
    by blast
  from loop_routed [OF assms _ r]
  have "L' = \<lparr>event_list = [],
              init_event_list = sequence_of INIT_EVENT_LIST (routed H None log),
              main_event_list = sequence_of MAIN_EVENT_LIST (routed H None log)\<rparr>"
    by (cases L') (simp add: no_events_def)
  with r show "parse_events H log log_version no_events None
                 = Returned True
                     \<lparr>event_list = [],
                      init_event_list = sequence_of INIT_EVENT_LIST (routed H None log),
                      main_event_list = sequence_of MAIN_EVENT_LIST (routed H None log)\<rparr>
                     None []"
    by (simp add: parse_events_def)
qed

text \<open>
  C2 on the example log: it is well formed, it parses, and the init list holds the two
  init events and the main list the one main event, in the order of the file.
\<close>

theorem sections_in_input_order_witness:
  "well_formed spec_helpers None versioned_log
   \<and> parse_events spec_helpers versioned_log 1 no_events None
       = Returned True
           \<lparr>event_list = [], init_event_list = [event_1, event_2],
            main_event_list = [event_3]\<rparr>
           None []
   \<and> sequence_of INIT_EVENT_LIST (routed spec_helpers None versioned_log) = [event_1, event_2]
   \<and> sequence_of MAIN_EVENT_LIST (routed spec_helpers None versioned_log) = [event_3]"
proof -
  have wf: "well_formed spec_helpers None versioned_log"
    by (simp add: versioned_log_def example_lines)
  have one: "(1::int) \<le> 1" by simp
  from sections_in_input_order
         [OF one, of spec_helpers versioned_log
            "\<lparr>event_list = [], init_event_list = [event_1, event_2],
              main_event_list = [event_3]\<rparr>" None "[]" versioned_log]
       wf versioned_log_parsed
  show ?thesis by simp
qed

text \<open>
  C9: in a log of version 1 or later that starts with event lines, none reporting an
  error, the first of them that yields an event is stored through \<open>event_list_dest\<close>
  before any section marker has assigned the pointer: the outcome is the undefined
  store, not a \<open>FALSE\<close> return with an input error, whatever follows in the log.
\<close>

theorem event_before_first_marker:
  assumes "1 \<le> log_version"
    and "\<forall>l \<in> set pre. skipped_line H l"
    and "yields_event H line"
  shows "parse_events H (pre @ line # post) log_version L None = Undefined_store"
  using loop_undefined [OF assms] by (simp add: parse_events_def)

text \<open>
  C9 on a log whose first marker comes third: one line that is passed over, then an event.
\<close>

theorem event_before_first_marker_witness:
  "skipped_line spec_helpers other_line
   \<and> yields_event spec_helpers event_line_1
   \<and> parse_events spec_helpers [other_line, event_line_1, main_marker, event_line_3] 1
        no_events None
       = Undefined_store"
proof -
  have s: "\<forall>l \<in> set [other_line]. skipped_line spec_helpers l"
    by (simp add: skipped_line_def example_lines)
  have y: "yields_event spec_helpers event_line_1"
    by (simp add: yields_event_def example_lines)
  have one: "(1::int) \<le> 1" by simp
  from event_before_first_marker [OF one s y, of "[main_marker, event_line_3]" no_events] s y
  show ?thesis by simp
qed

section \<open>The replay scheduler\<close>

lemma interrupt_frames_append:
  "interrupt_frames (xs @ ys) = interrupt_frames xs @ interrupt_frames ys"
  by (induction xs) (auto split: action.splits ps2emu_cmd_type.splits)

text \<open>What one call of \<open>simulate_interrupt\<close> adds to the trace.\<close>

lemma simulate_interrupt_trace:
  assumes "simulate_interrupt E st e w = (ok, w', err)"
  shows "\<exists>pre fr. trace w' = trace w @ pre @ fr
           \<and> interrupt_frames pre = []
           \<and> (\<forall>p \<in> set (pre @ fr). clock w \<le> fst p \<and> fst p \<le> clock w')
           \<and> clock w \<le> clock w'
           \<and> (if ok
               then \<exists>t. fr = [(t, Write_cmd PS2EMU_CMD_SEND_INTERRUPT (data e))]
                        \<and> st + sint (time e) \<le> t
               else fr = [])"
proof -
  let ?l0 = "int (latency E (ops w))"
  let ?l1 = "int (latency E (Suc (ops w)))"
  let ?sleep = "(clock w + ?l0, Usleep (nat (sint (time e) - (clock w - st))))"
  let ?cmd = "Write_cmd PS2EMU_CMD_SEND_INTERRUPT (data e)"
  let ?sent = "status_of (write_outcome E (writes w)) = G_IO_STATUS_NORMAL"
  consider (sleep_sent) "clock w - st < sint (time e)" "?sent"
    | (sleep_failed) "clock w - st < sint (time e)" "\<not> ?sent"
    | (late_sent) "\<not> clock w - st < sint (time e)" "?sent"
    | (late_failed) "\<not> clock w - st < sint (time e)" "\<not> ?sent"
    by blast
  then show ?thesis
  proof cases
    case sleep_sent
    with assms show ?thesis
      by (intro exI [of _ "[?sleep]"] exI [of _ "[(st + sint (time e) + ?l0 + ?l1, ?cmd)]"])
         (auto simp: simulate_interrupt_def g_get_monotonic_time_def g_usleep_def
            send_ps2emu_cmd_def elapse_def act_def Let_def)
  next
    case sleep_failed
    with assms show ?thesis
      by (intro exI [of _ "[?sleep]"] exI [of _ "[]"])
         (auto simp: simulate_interrupt_def g_get_monotonic_time_def g_usleep_def
            send_ps2emu_cmd_def elapse_def act_def Let_def)
  next
    case late_sent
    with assms show ?thesis
      by (intro exI [of _ "[]"] exI [of _ "[(clock w + ?l0, ?cmd)]"])
         (auto simp: simulate_interrupt_def g_get_monotonic_time_def g_usleep_def
            send_ps2emu_cmd_def elapse_def act_def Let_def)
  next
    case late_failed
    with assms show ?thesis
      by (intro exI [of _ "[]"] exI [of _ "[]"])
         (auto simp: simulate_interrupt_def g_get_monotonic_time_def g_usleep_def
            send_ps2emu_cmd_def elapse_def act_def Let_def)
  qed
qed

lemma simulate_receive_trace:
  assumes "simulate_receive E e w = (ok, w', err)"
  shows "\<exists>new. trace w' = trace w @ new \<and> interrupt_frames new = []
           \<and> (\<forall>p \<in> set new. clock w \<le> fst p \<and> fst p \<le> clock w')
           \<and> clock w \<le> clock w'"
  using assms
  by (auto simp: simulate_receive_def g_io_channel_read_chars_def printf_def
        elapse_def act_def Let_def split: if_splits io_outcome.splits)

lemma replay_loop_frames:
  "replay_loop E st es w = (ok, w', err) \<Longrightarrow>
     \<exists>new. trace w' = trace w @ new
       \<and> (\<forall>p \<in> set new. clock w \<le> fst p \<and> fst p \<le> clock w')
       \<and> clock w \<le> clock w'
       \<and> list_all2 (\<lambda>f e. snd f = data e \<and> st + sint (time e) \<le> fst f)
             (interrupt_frames new)
             (take (length (interrupt_frames new)) (filter is_interrupt es))
       \<and> (ok \<longrightarrow> length (interrupt_frames new) = length (filter is_interrupt es))"
proof (induction es arbitrary: w)
  case Nil
  then show ?case by auto
next
  case (Cons e es)
  show ?case
  proof (cases "type e = PS2_EVENT_TYPE_INTERRUPT")
    case True
    then have ie: "is_interrupt e" by (simp add: is_interrupt_def)
    obtain ok1 w1 err1 where s: "simulate_interrupt E st e w = (ok1, w1, err1)"
      by (cases "simulate_interrupt E st e w") auto
    from simulate_interrupt_trace [OF s]
    obtain pre fr where t1: "trace w1 = trace w @ pre @ fr"
      and pre: "interrupt_frames pre = []"
      and b1: "\<forall>p \<in> set (pre @ fr). clock w \<le> fst p \<and> fst p \<le> clock w1"
      and c1: "clock w \<le> clock w1"
      and fr: "if ok1
               then \<exists>t. fr = [(t, Write_cmd PS2EMU_CMD_SEND_INTERRUPT (data e))]
                        \<and> st + sint (time e) \<le> t
               else fr = []"
      by blast
    show ?thesis
    proof (cases ok1)
      case False
      with Cons.prems True s fr t1 b1 c1 pre show ?thesis
        by (auto simp: interrupt_frames_append ie)
    next
      case ok: True
      with fr obtain t where frt: "fr = [(t, Write_cmd PS2EMU_CMD_SEND_INTERRUPT (data e))]"
        and tb: "st + sint (time e) \<le> t"
        by auto
      from Cons.prems True s ok have r: "replay_loop E st es w1 = (ok, w', err)"
        by simp
      from Cons.IH [OF r]
      obtain new where t2: "trace w' = trace w1 @ new"
        and b2: "\<forall>p \<in> set new. clock w1 \<le> fst p \<and> fst p \<le> clock w'"
        and c2: "clock w1 \<le> clock w'"
        and la: "list_all2 (\<lambda>f e. snd f = data e \<and> st + sint (time e) \<le> fst f)
                   (interrupt_frames new)
                   (take (length (interrupt_frames new)) (filter is_interrupt es))"
        and len: "ok \<longrightarrow> length (interrupt_frames new) = length (filter is_interrupt es)"
        by blast
      have tr: "trace w' = trace w @ (pre @ fr @ new)"
        by (simp add: t1 t2)
      have bounds: "\<forall>p \<in> set (pre @ fr @ new). clock w \<le> fst p \<and> fst p \<le> clock w'"
      proof
        fix p assume "p \<in> set (pre @ fr @ new)"
        then consider "p \<in> set (pre @ fr)" | "p \<in> set new" by auto
        then show "clock w \<le> fst p \<and> fst p \<le> clock w'"
        proof cases
          case 1 with b1 c2 show ?thesis by force
        next
          case 2 with b2 c1 show ?thesis by force
        qed
      qed
      have frames: "interrupt_frames (pre @ fr @ new) = (t, data e) # interrupt_frames new"
        by (simp add: interrupt_frames_append pre frt)
      have "list_all2 (\<lambda>f e. snd f = data e \<and> st + sint (time e) \<le> fst f)
              (interrupt_frames (pre @ fr @ new))
              (take (length (interrupt_frames (pre @ fr @ new))) (filter is_interrupt (e # es)))"
        using la tb True by (simp add: frames ie)
      moreover have "ok \<longrightarrow> length (interrupt_frames (pre @ fr @ new))
                             = length (filter is_interrupt (e # es))"
        using len True by (simp add: frames ie)
      ultimately show ?thesis
        using tr bounds c1 c2 by (intro exI [of _ "pre @ fr @ new"]) auto
    qed
  next
    case False
    then have ie: "\<not> is_interrupt e" by (simp add: is_interrupt_def)
    obtain ok1 w1 err1 where s: "simulate_receive E e w = (ok1, w1, err1)"
      by (cases "simulate_receive E e w") auto
    from simulate_receive_trace [OF s]
    obtain rd where t1: "trace w1 = trace w @ rd"
      and rdf: "interrupt_frames rd = []"
      and b1: "\<forall>p \<in> set rd. clock w \<le> fst p \<and> fst p \<le> clock w1"
      and c1: "clock w \<le> clock w1"
      by blast
    show ?thesis
    proof (cases ok1)
      case nok: False
      with Cons.prems False s t1 b1 c1 rdf show ?thesis
        by (auto simp: ie)
    next
      case ok: True
      from Cons.prems False s ok have r: "replay_loop E st es w1 = (ok, w', err)"
        by simp
      from Cons.IH [OF r]
      obtain new where t2: "trace w' = trace w1 @ new"
        and b2: "\<forall>p \<in> set new. clock w1 \<le> fst p \<and> fst p \<le> clock w'"
        and c2: "clock w1 \<le> clock w'"
        and la: "list_all2 (\<lambda>f e. snd f = data e \<and> st + sint (time e) \<le> fst f)
                   (interrupt_frames new)
                   (take (length (interrupt_frames new)) (filter is_interrupt es))"
        and len: "ok \<longrightarrow> length (interrupt_frames new) = length (filter is_interrupt es)"
        by blast
      have tr: "trace w' = trace w @ (rd @ new)"
        by (simp add: t1 t2)
      have bounds: "\<forall>p \<in> set (rd @ new). clock w \<le> fst p \<and> fst p \<le> clock w'"
      proof
        fix p assume "p \<in> set (rd @ new)"
        then consider "p \<in> set rd" | "p \<in> set new" by auto
        then show "clock w \<le> fst p \<and> fst p \<le> clock w'"
        proof cases
          case 1 with b1 c2 show ?thesis by force
        next
          case 2 with b2 c1 show ?thesis by force
        qed
      qed
      have frames: "interrupt_frames (rd @ new) = interrupt_frames new"
        by (simp add: interrupt_frames_append rdf)
      show ?thesis
        using tr bounds c1 c2 la len False
        by (intro exI [of _ "rd @ new"]) (auto simp: frames ie)
    qed
  qed
qed

lemma simulate_interrupt_sleeps:
  assumes "clock v - start < sint (time e)"
  shows "trace (fst (snd (simulate_interrupt E start e v)))
           = trace v
             @ (clock v + int (latency E (ops v)),
                Usleep (nat (sint (time e) - (clock v - start))))
             # (if status_of (write_outcome E (writes v)) = G_IO_STATUS_NORMAL
                then [(start + sint (time e) + int (latency E (ops v))
                         + int (latency E (Suc (ops v))),
                       Write_cmd PS2EMU_CMD_SEND_INTERRUPT (data e))]
                else [])"
  using assms
  by (simp add: simulate_interrupt_def g_get_monotonic_time_def g_usleep_def
        send_ps2emu_cmd_def elapse_def act_def Let_def)

lemma simulate_interrupt_late:
  assumes "\<not> clock v - start < sint (time e)"
  shows "trace (fst (snd (simulate_interrupt E start e v)))
           = trace v
             @ (if status_of (write_outcome E (writes v)) = G_IO_STATUS_NORMAL
                then [(clock v + int (latency E (ops v)),
                       Write_cmd PS2EMU_CMD_SEND_INTERRUPT (data e))]
                else [])"
  using assms
  by (simp add: simulate_interrupt_def g_get_monotonic_time_def g_usleep_def
        send_ps2emu_cmd_def elapse_def act_def Let_def)

lemma replay_event_list_frames:
  assumes "replay_event_list E events w = (ok, w', err)"
  shows "\<exists>new. trace w' = trace w @ new
           \<and> list_all2 (\<lambda>f e. snd f = data e \<and> clock w + sint (time e) \<le> fst f)
                 (interrupt_frames new)
                 (take (length (interrupt_frames new)) (filter is_interrupt events))
           \<and> (ok \<longrightarrow> length (interrupt_frames new) = length (filter is_interrupt events))"
proof -
  from assms have r: "replay_loop E (clock w) events (elapse E w) = (ok, w', err)"
    by (simp add: replay_event_list_def g_get_monotonic_time_def)
  from replay_loop_frames [OF r] show ?thesis
    by (auto simp: elapse_def)
qed

text \<open>
  C3, amended. A replay takes its start timestamp from the clock (\<open>clock w\<close>) and then
  writes one frame for each interrupt event, in the order of the events and with the
  data of the event, and no frame is written earlier than the recorded time of its
  event after the start timestamp; a replay that returns \<open>TRUE\<close> has written a frame
  for every interrupt event. For one interrupt: with \<open>elapsed\<close> the clock reading
  minus the start, if \<open>elapsed < time\<close> the program asks for a sleep of exactly
  \<open>time - elapsed\<close> and then writes the frame, at the start plus the recorded time plus
  whatever the clock reading and the sleep took beyond that (nothing corrects for it);
  otherwise it writes the frame at once.
\<close>

theorem interrupt_pacing:
  "(replay_event_list E events w = (ok, w', err) \<longrightarrow>
      (\<exists>new. trace w' = trace w @ new
         \<and> list_all2 (\<lambda>f e. snd f = data e \<and> clock w + sint (time e) \<le> fst f)
               (interrupt_frames new)
               (take (length (interrupt_frames new)) (filter is_interrupt events))
         \<and> (ok \<longrightarrow> length (interrupt_frames new) = length (filter is_interrupt events))))
   \<and> (clock v - start < sint (time e) \<longrightarrow>
        trace (fst (snd (simulate_interrupt E start e v)))
          = trace v
            @ (clock v + int (latency E (ops v)),
               Usleep (nat (sint (time e) - (clock v - start))))
            # (if status_of (write_outcome E (writes v)) = G_IO_STATUS_NORMAL
               then [(start + sint (time e) + int (latency E (ops v))
                        + int (latency E (Suc (ops v))),
                      Write_cmd PS2EMU_CMD_SEND_INTERRUPT (data e))]
               else []))
   \<and> (\<not> clock v2 - start2 < sint (time e2) \<longrightarrow>
        trace (fst (snd (simulate_interrupt E start2 e2 v2)))
          = trace v2
            @ (if status_of (write_outcome E (writes v2)) = G_IO_STATUS_NORMAL
               then [(clock v2 + int (latency E (ops v2)),
                      Write_cmd PS2EMU_CMD_SEND_INTERRUPT (data e2))]
               else []))"
  using replay_event_list_frames simulate_interrupt_sleeps simulate_interrupt_late
  by blast

lemmas replay_eval =
  replay_event_list_def simulate_interrupt_def simulate_receive_def send_ps2emu_cmd_def
  g_get_monotonic_time_def g_usleep_def g_io_channel_read_chars_def printf_def elapse_def
  act_def

text \<open>
  C3, as stated, fails in its example: with interrupts recorded at 0 and at 50000
  microseconds, the two frames can be less than 50 ms apart. Here the first clock
  reading takes 100 microseconds, so the first frame is written at 100; the second is
  written at 50000, the time counted from the start timestamp and not from the first
  frame.
\<close>

theorem fifty_ms_gap_not_kept:
  "replay_event_list slow_start_env [interrupt_at_0, interrupt_at_50000] boot_world
     = (True,
        \<lparr>clock = 50000, ops = 6, writes = 2, reads = 0,
         trace = [(100, Write_cmd PS2EMU_CMD_SEND_INTERRUPT 0xaa),
                  (100, Usleep 49900),
                  (50000, Write_cmd PS2EMU_CMD_SEND_INTERRUPT 0x00)]\<rparr>,
        None)
   \<and> \<not> (50000 \<le> (50000::int) - 100)"
  by (simp add: replay_eval slow_start_env_def boot_world_def interrupt_at_0_def
        interrupt_at_50000_def)

text \<open>
  C3, amended, where no operation takes time beyond the sleeps: the frame for time 0 is
  written at once, and the frame for time 50000 after a sleep of 50000 microseconds.
\<close>

theorem interrupt_pacing_witness:
  "replay_event_list prompt_env [interrupt_at_0, interrupt_at_50000] boot_world
     = (True,
        \<lparr>clock = 50000, ops = 6, writes = 2, reads = 0,
         trace = [(0, Write_cmd PS2EMU_CMD_SEND_INTERRUPT 0xaa),
                  (0, Usleep 50000),
                  (50000, Write_cmd PS2EMU_CMD_SEND_INTERRUPT 0x00)]\<rparr>,
        None)
   \<and> trace (fst (snd (simulate_interrupt prompt_env 0 interrupt_at_50000 boot_world)))
       = [(0, Usleep 50000), (50000, Write_cmd PS2EMU_CMD_SEND_INTERRUPT 0x00)]
   \<and> trace (fst (snd (simulate_interrupt prompt_env 0 interrupt_at_0 boot_world)))
       = [(0, Write_cmd PS2EMU_CMD_SEND_INTERRUPT 0xaa)]"
  using interrupt_pacing [where E = prompt_env
      and events = "[interrupt_at_0, interrupt_at_50000]" and w = boot_world and ok = True
      and w' = "\<lparr>clock = 50000, ops = 6, writes = 2, reads = 0,
                trace = [(0, Write_cmd PS2EMU_CMD_SEND_INTERRUPT 0xaa),
                         (0, Usleep 50000),
                         (50000, Write_cmd PS2EMU_CMD_SEND_INTERRUPT 0x00)]\<rparr>"
      and err = None and v = boot_world and start = 0 and e = interrupt_at_50000
      and ?v2.0 = boot_world and ?start2.0 = 0 and ?e2.0 = interrupt_at_0]
  by (simp add: replay_eval prompt_env_def boot_world_def interrupt_at_0_def
        interrupt_at_50000_def)

lemma at_error_not_0: "at_error e \<noteq> Return_0"
  by (simp add: at_error_def split: option.splits prod.splits)

text \<open>
  Mismatches and failures in the loop. For an event that is not an interrupt: when the
  byte read differs from the data of the event, \<open>simulate_receive\<close> prints both values
  and returns \<open>TRUE\<close>, and the loop goes on with the next event; when the read does
  not return \<open>G_IO_STATUS_NORMAL\<close>, the loop returns \<open>FALSE\<close> at once, whatever events
  follow. For an interrupt whose write fails the loop returns \<open>FALSE\<close> at once as
  well, and no frame has been written. In a versioned log a failure in the init
  sequence ends the replay before the main sequence, and \<open>main\<close> then goes to its
  error label with the error location as the failed call left it.
\<close>

lemma mismatch_continues_failure_stops:
  "(type e1 \<noteq> PS2_EVENT_TYPE_INTERRUPT \<and> read_outcome E1 (reads w1) = IO_normal b
      \<and> b \<noteq> data e1
      \<longrightarrow> simulate_receive E1 e1 w1
            = (True,
               printf E1 (''Expected '' @ show_hhx (data e1) @ '', received '' @ show_hhx b
                            @ ''\<newline>'')
                 (elapse E1 (w1\<lparr>reads := Suc (reads w1)\<rparr>)),
               None)
          \<and> replay_loop E1 st1 (e1 # es1) w1
              = replay_loop E1 st1 es1
                  (printf E1 (''Expected '' @ show_hhx (data e1) @ '', received ''
                                @ show_hhx b @ ''\<newline>'')
                     (elapse E1 (w1\<lparr>reads := Suc (reads w1)\<rparr>))))
   \<and> (type e2 \<noteq> PS2_EVENT_TYPE_INTERRUPT
        \<and> status_of (read_outcome E2 (reads w2)) \<noteq> G_IO_STATUS_NORMAL
      \<longrightarrow> replay_loop E2 st2 (e2 # es2) w2
            = (False, elapse E2 (w2\<lparr>reads := Suc (reads w2)\<rparr>),
               error_of (read_outcome E2 (reads w2))))
   \<and> (type e3 = PS2_EVENT_TYPE_INTERRUPT
        \<and> status_of (write_outcome E3 (writes w3)) \<noteq> G_IO_STATUS_NORMAL
      \<longrightarrow> replay_loop E3 st3 (e3 # es3) w3
            = (False, fst (snd (simulate_interrupt E3 st3 e3 w3)),
               error_of (write_outcome E3 (writes w3)))
          \<and> interrupt_frames (trace (fst (snd (simulate_interrupt E3 st3 e3 w3))))
              = interrupt_frames (trace w3))
   \<and> (log_version \<noteq> 0
        \<and> replay_event_list E4 (init_event_list L4)
              (printf E4 ''Replaying initialization sequence...\<newline>'' w4)
            = (False, w4', err4)
      \<longrightarrow> replay_lists E4 log_version L4 w4 = (False, w4', err4))
   \<and> (parse_log_version junk input None = (v5, chan5, None) \<and> v5 \<le> supported
        \<and> parse_events H chan5 v5 no_events None = Returned True L5 None rest5
        \<and> open_error E5 = None
        \<and> send_ps2emu_cmd E5 PS2EMU_CMD_SET_PORT_TYPE SERIO_8042 w5
            = (G_IO_STATUS_NORMAL, wa, None)
        \<and> send_ps2emu_cmd E5 PS2EMU_CMD_BEGIN SERIO_8042 wa = (G_IO_STATUS_NORMAL, wb, None)
        \<and> replay_lists E5 v5 L5 wb = (False, wc, err5)
      \<longrightarrow> main H E5 supported junk input w5
            = \<lparr>status = at_error err5, input_left = rest5, lists = L5, device = wc\<rparr>
          \<and> at_error err5 \<noteq> Return_0)"
proof (intro conjI impI; (elim conjE)?)
  assume "type e1 \<noteq> PS2_EVENT_TYPE_INTERRUPT" "read_outcome E1 (reads w1) = IO_normal b"
    "b \<noteq> data e1"
  then show "simulate_receive E1 e1 w1
            = (True,
               printf E1 (''Expected '' @ show_hhx (data e1) @ '', received '' @ show_hhx b
                            @ ''\<newline>'')
                 (elapse E1 (w1\<lparr>reads := Suc (reads w1)\<rparr>)),
               None)"
    by (auto simp: simulate_receive_def g_io_channel_read_chars_def)
  then show "replay_loop E1 st1 (e1 # es1) w1
              = replay_loop E1 st1 es1
                  (printf E1 (''Expected '' @ show_hhx (data e1) @ '', received ''
                                @ show_hhx b @ ''\<newline>'')
                     (elapse E1 (w1\<lparr>reads := Suc (reads w1)\<rparr>)))"
    using \<open>type e1 \<noteq> PS2_EVENT_TYPE_INTERRUPT\<close> by simp
next
  assume "type e2 \<noteq> PS2_EVENT_TYPE_INTERRUPT"
    "status_of (read_outcome E2 (reads w2)) \<noteq> G_IO_STATUS_NORMAL"
  then show "replay_loop E2 st2 (e2 # es2) w2
            = (False, elapse E2 (w2\<lparr>reads := Suc (reads w2)\<rparr>),
               error_of (read_outcome E2 (reads w2)))"
    by (cases "read_outcome E2 (reads w2)")
       (auto simp: simulate_receive_def g_io_channel_read_chars_def)
next
  assume a: "type e3 = PS2_EVENT_TYPE_INTERRUPT"
    "status_of (write_outcome E3 (writes w3)) \<noteq> G_IO_STATUS_NORMAL"
  then show "replay_loop E3 st3 (e3 # es3) w3
            = (False, fst (snd (simulate_interrupt E3 st3 e3 w3)),
               error_of (write_outcome E3 (writes w3)))"
    by (simp add: simulate_interrupt_def g_get_monotonic_time_def g_usleep_def
          send_ps2emu_cmd_def elapse_def act_def Let_def)
  from a show "interrupt_frames (trace (fst (snd (simulate_interrupt E3 st3 e3 w3))))
              = interrupt_frames (trace w3)"
    by (simp add: simulate_interrupt_def g_get_monotonic_time_def g_usleep_def
          send_ps2emu_cmd_def elapse_def act_def Let_def interrupt_frames_append)
next
  assume "log_version \<noteq> 0"
    "replay_event_list E4 (init_event_list L4)
              (printf E4 ''Replaying initialization sequence...\<newline>'' w4)
            = (False, w4', err4)"
  then show "replay_lists E4 log_version L4 w4 = (False, w4', err4)"
    by (simp add: replay_lists_def)
next
  assume "parse_log_version junk input None = (v5, chan5, None)" "v5 \<le> supported"
    "parse_events H chan5 v5 no_events None = Returned True L5 None rest5"
    "open_error E5 = None"
    "send_ps2emu_cmd E5 PS2EMU_CMD_SET_PORT_TYPE SERIO_8042 w5
            = (G_IO_STATUS_NORMAL, wa, None)"
    "send_ps2emu_cmd E5 PS2EMU_CMD_BEGIN SERIO_8042 wa = (G_IO_STATUS_NORMAL, wb, None)"
    "replay_lists E5 v5 L5 wb = (False, wc, err5)"
  then show "main H E5 supported junk input w5
            = \<lparr>status = at_error err5, input_left = rest5, lists = L5, device = wc\<rparr>"
    by (simp add: main_def)
next
  show "at_error err5 \<noteq> Return_0" by (rule at_error_not_0)
qed

section \<open>The log version\<close>

text \<open>Printing a number in decimal and scanning it again gives the number back.\<close>

lemma digit_cases: "d < 10 \<Longrightarrow> d \<in> {0, 1, 2, 3, 4, 5, 6, 7, 8, 9::nat}"
  by auto

lemma digit_of_digit_char: "d < 10 \<Longrightarrow> digit_of (digit_char d) = Some d"
  by (drule digit_cases) (auto simp: digit_of_def digit_char_def)

lemma digit_not_space_or_sign:
  "digit_of c = Some d \<Longrightarrow> \<not> isspace c \<and> c \<noteq> CHR ''-'' \<and> c \<noteq> CHR ''+''"
  by (auto simp: digit_of_def isspace_def Let_def split: if_splits)

lemma scan_digits_append:
  "\<forall>c \<in> set xs. digit_of c \<noteq> None \<Longrightarrow>
     scan_digits digit_of 10 acc (xs @ ys)
       = scan_digits digit_of 10 (fst (scan_digits digit_of 10 acc xs)) ys"
  by (induction xs arbitrary: acc) auto

lemma show_nat_digits: "\<forall>c \<in> set (show_nat n). digit_of c \<noteq> None"
proof (induction n rule: show_nat.induct)
  case (1 n)
  show ?case
  proof (cases "n < 10")
    case True
    then show ?thesis
      by (subst show_nat.simps) (simp add: digit_of_digit_char)
  next
    case False
    with 1 show ?thesis
      by (subst show_nat.simps) (simp add: digit_of_digit_char)
  qed
qed

lemma show_nat_not_Nil: "show_nat n \<noteq> []"
  by (subst show_nat.simps) simp

lemma scan_show_nat:
  "fst (scan_digits digit_of 10 acc (show_nat n)) = acc * 10 ^ length (show_nat n) + n"
proof (induction n arbitrary: acc rule: show_nat.induct)
  case (1 n)
  show ?case
  proof (cases "n < 10")
    case True
    then show ?thesis
      by (subst (1 2) show_nat.simps) (simp add: digit_of_digit_char)
  next
    case False
    have "fst (scan_digits digit_of 10 acc (show_nat (n div 10) @ [digit_char (n mod 10)]))
            = (acc * 10 ^ length (show_nat (n div 10)) + n div 10) * 10 + n mod 10"
      using False 1 [of acc]
      by (simp add: scan_digits_append show_nat_digits digit_of_digit_char)
    also have "\<dots> = acc * 10 ^ length (show_nat (n div 10) @ [digit_char (n mod 10)]) + n"
      by (simp add: algebra_simps)
    finally show ?thesis
      using False by (subst (1 2) show_nat.simps) simp
  qed
qed

lemma scan_decimal_show_nat:
  assumes "digit_of r = None"
  shows "scan_decimal (show_nat n @ r # rs) = Some ((False, n), r # rs)"
proof -
  obtain c cs where s: "show_nat n = c # cs"
    using show_nat_not_Nil [of n] by (cases "show_nat n") auto
  obtain d where d: "digit_of c = Some d"
    using show_nat_digits [of n] s by auto
  have cs: "\<forall>x \<in> set cs. digit_of x \<noteq> None"
    using show_nat_digits [of n] s by auto
  have "fst (scan_digits digit_of 10 0 (c # cs)) = n"
    using scan_show_nat [of 0 n] s by simp
  then have v: "fst (scan_digits digit_of 10 d cs) = n"
    by (simp add: d)
  have "scan_digits digit_of 10 d (cs @ r # rs) = (n, r # rs)"
    using assms by (simp add: scan_digits_append [OF cs] v)
  then show ?thesis
    using digit_not_space_or_sign [OF d] by (simp add: scan_decimal_def s d)
qed

lemma skip_ws_show_nat: "dropWhile isspace (show_nat n @ rest) = show_nat n @ rest"
proof -
  obtain c cs where s: "show_nat n = c # cs"
    using show_nat_not_Nil [of n] by (cases "show_nat n") auto
  obtain d where d: "digit_of c = Some d"
    using show_nat_digits [of n] s by auto
  show ?thesis
    using digit_not_space_or_sign [OF d] by (simp add: s)
qed

lemma show_nat_not_spaces: "\<not> Ball (set (show_nat n)) isspace"
proof -
  obtain c cs where s: "show_nat n = c # cs"
    using show_nat_not_Nil [of n] by (cases "show_nat n") auto
  obtain d where d: "digit_of c = Some d"
    using show_nat_digits [of n] s by auto
  show ?thesis
    using digit_not_space_or_sign [OF d] by (simp add: s)
qed

lemma header_scanned:
  assumes "n < 2 ^ 31"
  shows "sscanf (''# ps2emu-record V'' @ show_nat n @ ''\<newline>'') log_version_format
           = (1, [VInt (word_of_nat n)], 0)"
proof -
  have nl: "digit_of CHR ''\<newline>'' = None"
    by (simp add: digit_of_def)
  have "int n \<le> LONG_MAX" "\<not> int n < LONG_MIN"
    using assms by (simp_all add: LONG_MAX_def LONG_MIN_def)
  then have l: "to_long False n 0 = (int n, 0)"
    by (simp add: to_long_def)
  have sp: "isspace CHR '' ''" "\<not> isspace CHR ''p''" "\<not> isspace CHR ''V''"
    "isspace CHR ''\<newline>''"
    by (simp_all add: isspace_def)
  show ?thesis
    by (simp add: sscanf_def log_version_format_def lits_def skip_ws_def skip_ws_show_nat
          scan_decimal_show_nat [OF nl] l sp show_nat_not_Nil show_nat_not_spaces)
qed

lemma sint_version: "n < 2 ^ 31 \<Longrightarrow> sint (word_of_nat n :: 32 word) = int n"
  by (simp add: signed_of_nat signed_take_bit_int_eq_self)

lemma parse_log_version_header:
  assumes "n < 2 ^ 31"
  shows "parse_log_version junk ((''# ps2emu-record V'' @ show_nat n @ ''\<newline>'') # body) None
           = (int n, body, None)"
  using header_scanned [OF assms] sint_version [OF assms]
  by (simp add: parse_log_version_def g_io_channel_read_line_def del: append.simps)




lemma parse_log_version_absent:
  "parse_log_version junk [] None
     = (- 1, [], Some (PS2EMU_ERROR_NO_EVENTS, ''Reached unexpected EOF''))"
  by (simp add: parse_log_version_def g_io_channel_read_line_def g_set_error_def)

lemma parse_log_version_mismatch:
  assumes "fst (sscanf line log_version_format) = 0
           \<or> snd (snd (sscanf line log_version_format)) \<noteq> 0"
  shows "parse_log_version junk (line # rest) None
           = (- 1, rest, Some (PS2EMU_ERROR_INPUT, ''Invalid log file version''))"
  using assms
  by (auto simp: parse_log_version_def g_io_channel_read_line_def g_set_error_def
           split: prod.splits)

lemma main_after_version_error:
  assumes "parse_log_version junk input None = (- 1, rest, Some (code, message))"
  shows "main H E supported junk input w
           = \<lparr>status = Return_1 (''Error: '' @ message @ ''\<newline>''),
              input_left = rest, lists = no_events, device = w\<rparr>"
  using assms
  by (simp add: main_def at_error_def g_set_error_def parse_events_def loop_error_set)

lemma not_a_header:
  "c \<noteq> CHR ''#'' \<Longrightarrow> sscanf (c # cs) log_version_format = (0, [], 0)"
  by (simp add: sscanf_def log_version_format_def matching_failure_def)

text \<open>
  C5, amended: a log whose first line is absent, or is a line on which \<open>sscanf\<close>
  with the header format returns 0 (a matching failure: the line departs from the
  header text) or sets \<open>errno\<close>, is rejected: \<open>parse_log_version\<close> sets an error and
  returns \<open>-1\<close>, and \<open>main\<close> returns 1 with the message "Reached unexpected EOF" or
  "Invalid log file version"; no line after the first is read, no event is parsed and
  nothing is replayed. Every first line that starts with a character other than \<open>#\<close>
  is such a line, as the lines of a legacy log are. The version is 0 when the header
  line says \<open>V0\<close>. (A first line that ends inside the header text, on which \<open>sscanf\<close>
  returns \<open>EOF\<close>, is not among these lines.)
\<close>

theorem headerless_log_rejected:
  "(main H E supported junk [] w
      = \<lparr>status = Return_1 ''Error: Reached unexpected EOF\<newline>'',
         input_left = [], lists = no_events, device = w\<rparr>)
   \<and> (fst (sscanf line log_version_format) = 0
        \<or> snd (snd (sscanf line log_version_format)) \<noteq> 0
      \<longrightarrow> main H E supported junk (line # rest) w
            = \<lparr>status = Return_1 ''Error: Invalid log file version\<newline>'',
               input_left = rest, lists = no_events, device = w\<rparr>)
   \<and> (c \<noteq> CHR ''#''
      \<longrightarrow> main H E supported junk ((c # cs) # rest) w
            = \<lparr>status = Return_1 ''Error: Invalid log file version\<newline>'',
               input_left = rest, lists = no_events, device = w\<rparr>)
   \<and> parse_log_version junk (''# ps2emu-record V0\<newline>'' # rest) None = (0, rest, None)"
proof (intro conjI impI)
  show "main H E supported junk [] w
      = \<lparr>status = Return_1 ''Error: Reached unexpected EOF\<newline>'',
         input_left = [], lists = no_events, device = w\<rparr>"
    using main_after_version_error [OF parse_log_version_absent] by simp
next
  assume "fst (sscanf line log_version_format) = 0
        \<or> snd (snd (sscanf line log_version_format)) \<noteq> 0"
  from main_after_version_error [OF parse_log_version_mismatch [OF this]]
  show "main H E supported junk (line # rest) w
            = \<lparr>status = Return_1 ''Error: Invalid log file version\<newline>'',
               input_left = rest, lists = no_events, device = w\<rparr>"
    by simp
next
  assume "c \<noteq> CHR ''#''"
  then have "fst (sscanf (c # cs) log_version_format) = 0
        \<or> snd (snd (sscanf (c # cs) log_version_format)) \<noteq> 0"
    by (simp add: not_a_header)
  from main_after_version_error [OF parse_log_version_mismatch [OF this]]
  show "main H E supported junk ((c # cs) # rest) w
            = \<lparr>status = Return_1 ''Error: Invalid log file version\<newline>'',
               input_left = rest, lists = no_events, device = w\<rparr>"
    by simp
next
  show "parse_log_version junk (''# ps2emu-record V0\<newline>'' # rest) None = (0, rest, None)"
    using parse_log_version_header [of 0 junk rest]
    by (simp add: show_nat.simps digit_char_def)
qed

lemma legacy_line_no_header:
  "sscanf ''[1000] 5f <- i8042 (interrupt,0,1)\<newline>'' log_version_format = (0, [], 0)"
  by (simp add: log_version_format_def scan_eval)

text \<open>
  C5, as stated, fails: a legacy log without a header line is not replayed as version
  0. Its first line is consumed as the header, does not match, and \<open>main\<close> returns 1
  with "Invalid log file version"; the second line is never read and no event reaches
  a list.
\<close>

theorem headerless_log_not_version_0:
  "main spec_helpers prompt_env 1 0 legacy_log boot_world
     = \<lparr>status = Return_1 ''Error: Invalid log file version\<newline>'',
        input_left = [''[2000] f4 -> i8042 (parameter)\<newline>''],
        lists = no_events, device = boot_world\<rparr>"
  by (simp add: main_def parse_log_version_def g_io_channel_read_line_def legacy_log_def
        legacy_line_no_header g_set_error_def at_error_def parse_events_def after_loop_def)

text \<open>
  C5, amended, on the empty file and on the legacy log.
\<close>

theorem headerless_log_rejected_witness:
  "fst (sscanf ''[1000] 5f <- i8042 (interrupt,0,1)\<newline>'' log_version_format) = 0
   \<and> CHR ''['' \<noteq> CHR ''#''
   \<and> main spec_helpers prompt_env 1 0 [] boot_world
       = \<lparr>status = Return_1 ''Error: Reached unexpected EOF\<newline>'',
          input_left = [], lists = no_events, device = boot_world\<rparr>
   \<and> main spec_helpers prompt_env 1 0
         [''[1000] 5f <- i8042 (interrupt,0,1)\<newline>'', ''[2000] f4 -> i8042 (parameter)\<newline>'']
         boot_world
       = \<lparr>status = Return_1 ''Error: Invalid log file version\<newline>'',
          input_left = [''[2000] f4 -> i8042 (parameter)\<newline>''],
          lists = no_events, device = boot_world\<rparr>"
  using headerless_log_rejected [where H = spec_helpers and E = prompt_env and supported = 1
      and junk = 0 and w = boot_world
      and line = "''[1000] 5f <- i8042 (interrupt,0,1)\<newline>''"
      and rest = "[''[2000] f4 -> i8042 (parameter)\<newline>'']"
      and c = "CHR ''[''" and cs = "''1000] 5f <- i8042 (interrupt,0,1)\<newline>''"]
  by (simp add: legacy_line_no_header)

section \<open>Concrete runs of the replay\<close>

lemma version_1_header:
  "parse_log_version junk versioned_file None = (1, versioned_log, None)"
  using parse_log_version_header [of 1 junk versioned_log]
  by (simp add: versioned_file_def show_nat.simps digit_char_def)

text \<open>
  The same on concrete runs: a reply \<open>0xfa\<close> where \<open>0xf4\<close> was recorded, after which
  the next interrupt is still replayed; a read that returns end of file and a write
  that fails, each ending the loop before the next event; and a device that fails the
  first interrupt of the init sequence with a \<open>GError\<close>, with which \<open>main\<close> prints the
  message, returns 1 and never reaches the main sequence.
\<close>

lemma mismatch_continues_failure_stops_runs:
  "read_outcome prompt_env (reads boot_world) = IO_normal 0xfa
   \<and> data expected_reply = 0xf4
   \<and> type expected_reply = PS2_EVENT_TYPE_PARAMETER
   \<and> read_outcome failing_env (reads boot_world) = IO_eof
   \<and> write_outcome failing_env (writes boot_world)
       = IO_error (G_IO_CHANNEL_ERROR, ''Input/output error'')
   \<and> replay_loop prompt_env 0 [expected_reply, interrupt_at_50000] boot_world
       = (True,
          \<lparr>clock = 50000, ops = 5, writes = 1, reads = 1,
           trace = [(0, Printf ''Expected f4, received fa\<newline>''),
                    (0, Usleep 50000),
                    (50000, Write_cmd PS2EMU_CMD_SEND_INTERRUPT 0x00)]\<rparr>,
          None)
   \<and> replay_loop failing_env 0 [expected_reply, interrupt_at_50000] boot_world
       = (False, \<lparr>clock = 0, ops = 1, writes = 0, reads = 1, trace = []\<rparr>, None)
   \<and> replay_loop failing_env 0 [interrupt_at_0, interrupt_at_50000] boot_world
       = (False, \<lparr>clock = 0, ops = 2, writes = 1, reads = 0, trace = []\<rparr>,
          Some (G_IO_CHANNEL_ERROR, ''Input/output error''))
   \<and> replay_lists unplugged_env 1
         \<lparr>event_list = [], init_event_list = [event_2, event_1],
          main_event_list = [event_3]\<rparr> boot_world
       = (False,
          \<lparr>clock = 0, ops = 3, writes = 0, reads = 1,
           trace = [(0, Printf ''Replaying initialization sequence...\<newline>'')]\<rparr>,
          None)
   \<and> parse_log_version 0 versioned_file None = (1, versioned_log, None)
   \<and> send_ps2emu_cmd unplugged_env PS2EMU_CMD_SET_PORT_TYPE SERIO_8042 boot_world
       = (G_IO_STATUS_NORMAL,
          \<lparr>clock = 0, ops = 1, writes = 1, reads = 0,
           trace = [(0, Write_cmd PS2EMU_CMD_SET_PORT_TYPE 1)]\<rparr>,
          None)
   \<and> send_ps2emu_cmd unplugged_env PS2EMU_CMD_BEGIN SERIO_8042
         \<lparr>clock = 0, ops = 1, writes = 1, reads = 0,
          trace = [(0, Write_cmd PS2EMU_CMD_SET_PORT_TYPE 1)]\<rparr>
       = (G_IO_STATUS_NORMAL,
          \<lparr>clock = 0, ops = 2, writes = 2, reads = 0,
           trace = [(0, Write_cmd PS2EMU_CMD_SET_PORT_TYPE 1),
                    (0, Write_cmd PS2EMU_CMD_BEGIN 1)]\<rparr>,
          None)
   \<and> replay_lists unplugged_env 1
         \<lparr>event_list = [], init_event_list = [event_1, event_2],
          main_event_list = [event_3]\<rparr>
         \<lparr>clock = 0, ops = 2, writes = 2, reads = 0,
          trace = [(0, Write_cmd PS2EMU_CMD_SET_PORT_TYPE 1),
                   (0, Write_cmd PS2EMU_CMD_BEGIN 1)]\<rparr>
       = (False,
          \<lparr>clock = 1000, ops = 7, writes = 3, reads = 0,
           trace = [(0, Write_cmd PS2EMU_CMD_SET_PORT_TYPE 1),
                    (0, Write_cmd PS2EMU_CMD_BEGIN 1),
                    (0, Printf ''Replaying initialization sequence...\<newline>''),
                    (0, Usleep 1000)]\<rparr>,
          Some (G_IO_CHANNEL_ERROR, ''No such device''))
   \<and> main spec_helpers unplugged_env 1 0 versioned_file boot_world
       = \<lparr>status = Return_1 ''Error: No such device\<newline>'', input_left = [],
          lists = \<lparr>event_list = [], init_event_list = [event_1, event_2],
                   main_event_list = [event_3]\<rparr>,
          device = \<lparr>clock = 1000, ops = 7, writes = 3, reads = 0,
                    trace = [(0, Write_cmd PS2EMU_CMD_SET_PORT_TYPE 1),
                             (0, Write_cmd PS2EMU_CMD_BEGIN 1),
                             (0, Printf ''Replaying initialization sequence...\<newline>''),
                             (0, Usleep 1000)]\<rparr>\<rparr>"
  using mismatch_continues_failure_stops
    [where ?e1.0 = expected_reply and ?E1.0 = prompt_env and ?w1.0 = boot_world and b = "0xfa"
       and ?st1.0 = 0 and ?es1.0 = "[interrupt_at_50000]"
       and ?e2.0 = expected_reply and ?E2.0 = failing_env and ?w2.0 = boot_world
       and ?st2.0 = 0 and ?es2.0 = "[interrupt_at_50000]"
       and ?e3.0 = interrupt_at_0 and ?E3.0 = failing_env and ?w3.0 = boot_world
       and ?st3.0 = 0 and ?es3.0 = "[interrupt_at_50000]"
       and log_version = 1 and ?E4.0 = unplugged_env
       and ?L4.0 = "\<lparr>event_list = [], init_event_list = [event_2, event_1],
                      main_event_list = [event_3]\<rparr>"
       and ?w4.0 = boot_world
       and ?w4' = "\<lparr>clock = 0, ops = 3, writes = 0, reads = 1,
                    trace = [(0, Printf ''Replaying initialization sequence...\<newline>'')]\<rparr>"
       and ?err4.0 = None
       and junk = 0 and input = versioned_file and ?v5.0 = 1 and ?chan5.0 = versioned_log
       and supported = 1 and H = spec_helpers
       and ?L5.0 = "\<lparr>event_list = [], init_event_list = [event_1, event_2],
                      main_event_list = [event_3]\<rparr>"
       and ?rest5.0 = "[]" and ?E5.0 = unplugged_env and ?w5.0 = boot_world
       and wa = "\<lparr>clock = 0, ops = 1, writes = 1, reads = 0,
                  trace = [(0, Write_cmd PS2EMU_CMD_SET_PORT_TYPE 1)]\<rparr>"
       and wb = "\<lparr>clock = 0, ops = 2, writes = 2, reads = 0,
                  trace = [(0, Write_cmd PS2EMU_CMD_SET_PORT_TYPE 1),
                           (0, Write_cmd PS2EMU_CMD_BEGIN 1)]\<rparr>"
       and wc = "\<lparr>clock = 1000, ops = 7, writes = 3, reads = 0,
                  trace = [(0, Write_cmd PS2EMU_CMD_SET_PORT_TYPE 1),
                           (0, Write_cmd PS2EMU_CMD_BEGIN 1),
                           (0, Printf ''Replaying initialization sequence...\<newline>''),
                           (0, Usleep 1000)]\<rparr>"
       and ?err5.0 = "Some (G_IO_CHANNEL_ERROR, ''No such device'')"]
  by (simp add: version_1_header versioned_log_parsed replay_lists_def replay_eval
        prompt_env_def failing_env_def unplugged_env_def boot_world_def
        expected_reply_def interrupt_at_0_def interrupt_at_50000_def event_1_def event_2_def
        SERIO_8042_def show_hhx_def hex_char_def at_error_def)

text \<open>
  C8 at the failing input: the device accepts every write and answers the read of the
  first reply with end of file. \<open>g_io_channel_read_chars\<close> then returns
  \<open>G_IO_STATUS_EOF\<close> and sets no error; \<open>simulate_receive\<close> returns \<open>FALSE\<close>, the replay
  stops before the main sequence, and \<open>main\<close> reaches its error label with \<open>error\<close>
  still \<open>NULL\<close>: it reads \<open>error->message\<close> through the null pointer instead of
  reporting an I/O error and returning 1.
\<close>

theorem read_eof_reaches_null_error:
  "main spec_helpers silent_env 1 0 versioned_file boot_world
     = \<lparr>status = Null_error, input_left = [],
        lists = \<lparr>event_list = [], init_event_list = [event_1, event_2],
                 main_event_list = [event_3]\<rparr>,
        device = \<lparr>clock = 1000, ops = 8, writes = 3, reads = 1,
                  trace = [(0, Write_cmd PS2EMU_CMD_SET_PORT_TYPE 1),
                           (0, Write_cmd PS2EMU_CMD_BEGIN 1),
                           (0, Printf ''Replaying initialization sequence...\<newline>''),
                           (0, Usleep 1000),
                           (1000, Write_cmd PS2EMU_CMD_SEND_INTERRUPT 0x5f)]\<rparr>\<rparr>"
  by (simp add: main_def version_1_header versioned_log_parsed replay_lists_def replay_eval
        silent_env_def boot_world_def event_1_def event_2_def event_3_def SERIO_8042_def
        show_hhx_def hex_char_def at_error_def)

text \<open>
  At that input the read that fails is the first one, the run does not end with the
  return of 1 that a reported error gives, and no frame of the main sequence has been
  written.
\<close>

theorem read_eof_reaches_null_error_witness:
  "read_outcome silent_env 0 = IO_eof
   \<and> status (main spec_helpers silent_env 1 0 versioned_file boot_world) = Null_error
   \<and> interrupt_frames
         (trace (device (main spec_helpers silent_env 1 0 versioned_file boot_world)))
       = [(1000, 0x5f)]"
  using read_eof_reaches_null_error by (simp add: silent_env_def)

end
